theory Spec2Isabelle
  imports Complex_Main
begin

section \<open>Disaster-recovery automation (dr-automation.py)\<close>

text \<open>
  A shallow embedding of \<^verbatim>\<open>src/infrastructure/backup-dr/dr-automation.py\<close>.
  The class \<^verbatim>\<open>DisasterRecoveryAutomation\<close> talks to five boto3 clients. Each client
  method is an oracle of the environment: the \<open>n\<close>-th call of a method returns a response
  or raises. Every call the source makes is appended to a log, so that the order and the
  number of collaborator calls can be read off the final log. Exceptions are values of
  the sum type \<open>exn + 'a\<close>.
\<close>

subsection \<open>Exceptions\<close>

datatype exn =
    ValueError string
  | KeyError string
  | IndexError string
  | PyException string
  | CollaboratorError string

text \<open>\<^verbatim>\<open>str(e)\<close>: the message; a \<^verbatim>\<open>KeyError\<close> prints the repr of its key.\<close>

fun str_exn :: "exn \<Rightarrow> string" where
  "str_exn (ValueError m) = m"
| "str_exn (KeyError k) = [CHR 0x27] @ k @ [CHR 0x27]"
| "str_exn (IndexError m) = m"
| "str_exn (PyException m) = m"
| "str_exn (CollaboratorError m) = m"

subsection \<open>Values, dictionaries and formatting\<close>

text \<open>The JSON-like values the source builds its dictionaries from.\<close>

datatype jval =
    JNull
  | JBool bool
  | JInt int
  | JNum real
  | JStr string
  | JList "jval list"
  | JObj "(string \<times> jval) list"

type_synonym dict = "(string \<times> jval) list"

text \<open>Python truthiness, as \<^verbatim>\<open>not x\<close> and \<^verbatim>\<open>all(...)\<close> read a value.\<close>

fun truthy :: "jval \<Rightarrow> bool" where
  "truthy JNull = False"
| "truthy (JBool b) = b"
| "truthy (JInt i) = (i \<noteq> 0)"
| "truthy (JNum r) = (r \<noteq> 0)"
| "truthy (JStr s) = (s \<noteq> [])"
| "truthy (JList xs) = (xs \<noteq> [])"
| "truthy (JObj d) = (d \<noteq> [])"

text \<open>\<^verbatim>\<open>d[k]\<close> raises \<^verbatim>\<open>KeyError\<close> on a missing key; \<^verbatim>\<open>d.get(k, default)\<close> does not.\<close>

definition getitem :: "dict \<Rightarrow> string \<Rightarrow> exn + jval" where
  "getitem d k = (case map_of d k of Some v \<Rightarrow> Inr v | None \<Rightarrow> Inl (KeyError k))"

definition dict_get :: "dict \<Rightarrow> string \<Rightarrow> jval \<Rightarrow> jval" where
  "dict_get d k dflt = (case map_of d k of Some v \<Rightarrow> v | None \<Rightarrow> dflt)"

text \<open>\<^verbatim>\<open>d[k] = v\<close>: an existing key keeps its place, a new key goes last.\<close>

fun setitem :: "dict \<Rightarrow> string \<Rightarrow> jval \<Rightarrow> dict" where
  "setitem [] k v = [(k, v)]"
| "setitem ((k', v') # d) k v = (if k' = k then (k, v) # d else (k', v') # setitem d k v)"

definition opt_jstr :: "string option \<Rightarrow> jval" where
  "opt_jstr s = (case s of None \<Rightarrow> JNull | Some x \<Rightarrow> JStr x)"

text \<open>An optional string inside an f-string: \<^verbatim>\<open>None\<close> prints as \<^verbatim>\<open>None\<close>.\<close>

definition str_opt :: "string option \<Rightarrow> string" where
  "str_opt s = (case s of None \<Rightarrow> ''None'' | Some x \<Rightarrow> x)"

definition digit_char :: "nat \<Rightarrow> char" where
  "digit_char d =
     (if d = 0 then CHR ''0'' else if d = 1 then CHR ''1'' else if d = 2 then CHR ''2''
      else if d = 3 then CHR ''3'' else if d = 4 then CHR ''4'' else if d = 5 then CHR ''5''
      else if d = 6 then CHR ''6'' else if d = 7 then CHR ''7'' else if d = 8 then CHR ''8''
      else CHR ''9'')"

fun str_nat :: "nat \<Rightarrow> string" where
  "str_nat n = (if n < 10 then [digit_char n] else str_nat (n div 10) @ [digit_char (n mod 10)])"

declare str_nat.simps [simp del]

definition str_int :: "int \<Rightarrow> string" where
  "str_int i = (if i < 0 then ''-'' @ str_nat (nat (- i)) else str_nat (nat i))"

text \<open>
  \<^verbatim>\<open>f"{steps_completed}"\<close>: the repr of a list of strings. The step names hold no quote,
  backslash or control character, so each prints between single quotes unchanged.
\<close>

fun join_strs :: "string \<Rightarrow> string list \<Rightarrow> string" where
  "join_strs sep [] = []"
| "join_strs sep [x] = x"
| "join_strs sep (x # y # ys) = x @ sep @ join_strs sep (y # ys)"

definition repr_str_list :: "string list \<Rightarrow> string" where
  "repr_str_list xs = ''['' @ join_strs '', '' (map (\<lambda>s. [CHR 0x27] @ s @ [CHR 0x27]) xs) @ '']''"

subsection \<open>Collaborators\<close>

text \<open>The two RDS clients of the module: \<^verbatim>\<open>rds_primary\<close> and \<^verbatim>\<open>rds_dr\<close>.\<close>

datatype rds = Primary | DR

record endpoint =
  Address :: "string option"

record db_instance =
  DBInstanceStatus :: string
  Endpoint :: "endpoint option"
  MultiAZ :: bool
  ReadReplicaSourceDBInstanceIdentifier :: "string option"

record describe_response =
  DBInstances :: "db_instance list"

text \<open>
  The average of a datapoint is a float in the source and a real number here; the source
  only compares it with 300.
\<close>

record datapoint =
  Average :: real

record metrics_response =
  Datapoints :: "datapoint list"

text \<open>
  One log entry per call: \<^verbatim>\<open>describe_db_instances\<close> (on either client, with the identifier
  passed), \<^verbatim>\<open>promote_read_replica\<close> (on \<^verbatim>\<open>rds_dr\<close>), \<^verbatim>\<open>get_metric_statistics\<close> (with the
  dimension value), \<^verbatim>\<open>sns.publish\<close> (topic, message, subject), \<^verbatim>\<open>time.sleep\<close> and \<^verbatim>\<open>print\<close>.
\<close>

datatype call =
    DescribeDBInstances rds "string option"
  | PromoteReadReplica string
  | GetMetricStatistics string
  | Publish "string option" string string
  | Sleep int
  | Print string

type_synonym trace = "call list"

fun is_describe :: "rds \<Rightarrow> call \<Rightarrow> bool" where
  "is_describe r (DescribeDBInstances r' i) = (r' = r)"
| "is_describe r _ = False"

fun is_promote :: "call \<Rightarrow> bool" where
  "is_promote (PromoteReadReplica i) = True"
| "is_promote _ = False"

fun is_metrics :: "call \<Rightarrow> bool" where
  "is_metrics (GetMetricStatistics v) = True"
| "is_metrics _ = False"

fun is_publish :: "call \<Rightarrow> bool" where
  "is_publish (Publish t m s) = True"
| "is_publish _ = False"

fun is_sleep :: "call \<Rightarrow> bool" where
  "is_sleep (Sleep n) = True"
| "is_sleep _ = False"

definition calls_of :: "(call \<Rightarrow> bool) \<Rightarrow> trace \<Rightarrow> nat" where
  "calls_of p tr = length (filter p tr)"

text \<open>
  The module's configuration (read from the process environment, so the identifiers may
  be \<^verbatim>\<open>None\<close>), the instance's \<^verbatim>\<open>self.timestamp\<close>, the collaborators' behaviour at their
  \<open>n\<close>-th call, and the library function \<^verbatim>\<open>json.dumps\<close> (with its \<^verbatim>\<open>indent\<close> argument), which
  is not part of the repository and is taken as a parameter.
\<close>

record env =
  ENVIRONMENT :: string
  DB_IDENTIFIER :: "string option"
  SNS_TOPIC_ARN :: "string option"
  timestamp :: string
  describe_db_instances :: "rds \<Rightarrow> nat \<Rightarrow> exn + describe_response"
  promote_read_replica :: "nat \<Rightarrow> exn + unit"
  get_metric_statistics :: "nat \<Rightarrow> exn + metrics_response"
  publish :: "nat \<Rightarrow> exn + unit"
  json_dumps :: "nat option \<Rightarrow> jval \<Rightarrow> string"

record result =
  statusCode :: int
  body :: string

subsection \<open>Notifications\<close>

definition subject_of :: "env \<Rightarrow> string \<Rightarrow> string" where
  "subject_of env severity = ''DR Automation - '' @ severity @ '' - '' @ ENVIRONMENT env"

text \<open>\<^verbatim>\<open>send_notification\<close> never raises: a failing publish is printed.\<close>

definition send_notification :: "env \<Rightarrow> string \<Rightarrow> string \<Rightarrow> trace \<Rightarrow> trace" where
  "send_notification env message severity tr =
     (let subject = subject_of env severity;
          c = Publish (SNS_TOPIC_ARN env)
                (message @ ''\<newline>\<newline>Timestamp: '' @ timestamp env @ ''\<newline>Environment: '' @ ENVIRONMENT env)
                subject
      in case publish env (calls_of is_publish tr) of
           Inr u \<Rightarrow> tr @ [c]
         | Inl e \<Rightarrow> tr @ [c, Print (''Failed to send notification: '' @ str_exn e)])"

text \<open>A log entry is a notification of a given severity when its subject says so.\<close>

fun is_notification :: "env \<Rightarrow> string \<Rightarrow> call \<Rightarrow> bool" where
  "is_notification env severity (Publish t m s) = (s = subject_of env severity)"
| "is_notification env severity _ = False"

subsection \<open>Sub-checks\<close>

definition error_dict :: "exn \<Rightarrow> dict" where
  "error_dict e = [(''healthy'', JBool False), (''error'', JStr (str_exn e))]"

definition endpoint_address :: "db_instance \<Rightarrow> jval" where
  "endpoint_address db =
     (case Endpoint db of None \<Rightarrow> JNull | Some ep \<Rightarrow> opt_jstr (Address ep))"

definition check_primary_database :: "env \<Rightarrow> trace \<Rightarrow> dict \<times> trace" where
  "check_primary_database env tr =
     (let tr' = tr @ [DescribeDBInstances Primary (DB_IDENTIFIER env)]
      in case describe_db_instances env Primary (calls_of (is_describe Primary) tr) of
           Inl e \<Rightarrow> (error_dict e, tr')
         | Inr response \<Rightarrow>
             (case DBInstances response of
                [] \<Rightarrow> (error_dict (IndexError ''list index out of range''), tr')
              | db_instance # rest \<Rightarrow>
                  ([(''healthy'', JBool (DBInstanceStatus db_instance = ''available'')),
                    (''status'', JStr (DBInstanceStatus db_instance)),
                    (''endpoint'', endpoint_address db_instance),
                    (''multi_az'', JBool (MultiAZ db_instance))], tr')))"

definition dr_replica_id :: "env \<Rightarrow> string" where
  "dr_replica_id env = str_opt (DB_IDENTIFIER env) @ ''-dr-replica''"

definition check_dr_replica :: "env \<Rightarrow> trace \<Rightarrow> dict \<times> trace" where
  "check_dr_replica env tr =
     (let tr' = tr @ [DescribeDBInstances DR (Some (dr_replica_id env))]
      in case describe_db_instances env DR (calls_of (is_describe DR) tr) of
           Inl e \<Rightarrow> (error_dict e, tr')
         | Inr response \<Rightarrow>
             (case DBInstances response of
                [] \<Rightarrow> (error_dict (IndexError ''list index out of range''), tr')
              | db_instance # rest \<Rightarrow>
                  ([(''healthy'', JBool (DBInstanceStatus db_instance = ''available'')),
                    (''status'', JStr (DBInstanceStatus db_instance)),
                    (''endpoint'', endpoint_address db_instance),
                    (''read_replica_source'',
                       opt_jstr (ReadReplicaSourceDBInstanceIdentifier db_instance))], tr')))"

text \<open>
  The time window of the query comes from the clock and is not modelled. A response with
  datapoints is judged on its last one (\<^verbatim>\<open>response['Datapoints'][-1]\<close>).
\<close>

definition check_replication_lag :: "env \<Rightarrow> trace \<Rightarrow> dict \<times> trace" where
  "check_replication_lag env tr =
     (let tr' = tr @ [GetMetricStatistics (dr_replica_id env)]
      in case get_metric_statistics env (calls_of is_metrics tr) of
           Inl e \<Rightarrow> (error_dict e, tr')
         | Inr response \<Rightarrow>
             (if Datapoints response \<noteq> [] then
                (let latest_lag = Average (last (Datapoints response))
                 in ([(''healthy'', JBool (latest_lag < 300)),
                      (''lag_seconds'', JNum latest_lag),
                      (''threshold_seconds'', JInt 300)], tr'))
              else
                ([(''healthy'', JBool False),
                  (''error'', JStr ''No replication lag metrics available'')], tr')))"

definition check_route53_health :: "env \<Rightarrow> trace \<Rightarrow> dict \<times> trace" where
  "check_route53_health env tr = ([(''healthy'', JBool True), (''status'', JStr ''active'')], tr)"

subsection \<open>Health check\<close>

text \<open>
  Lines 64 to 78 of \<^verbatim>\<open>perform_health_check\<close>, given the four sub-check dictionaries: the
  report is built with \<^verbatim>\<open>overall_status\<close> healthy, and turned unhealthy unless the three
  gating flags are all true. \<^verbatim>\<open>health_status['primary_db']['healthy']\<close> reads the
  dictionary just stored under \<^verbatim>\<open>primary_db\<close>.
\<close>

definition health_status_of :: "dict \<Rightarrow> dict \<Rightarrow> dict \<Rightarrow> dict \<Rightarrow> exn + dict" where
  "health_status_of primary_db dr_replica replication_lag route53_health =
     (let health_status =
            [(''primary_db'', JObj primary_db),
             (''dr_replica'', JObj dr_replica),
             (''replication_lag'', JObj replication_lag),
             (''route53_health'', JObj route53_health),
             (''overall_status'', JStr ''healthy'')]
      in case getitem primary_db ''healthy'' of
           Inl e \<Rightarrow> Inl e
         | Inr h1 \<Rightarrow>
             (case getitem dr_replica ''healthy'' of
                Inl e \<Rightarrow> Inl e
              | Inr h2 \<Rightarrow>
                  (case getitem replication_lag ''healthy'' of
                     Inl e \<Rightarrow> Inl e
                   | Inr h3 \<Rightarrow>
                       Inr (if \<not> list_all truthy [h1, h2, h3]
                            then setitem health_status ''overall_status'' (JStr ''unhealthy'')
                            else health_status))))"

definition perform_health_check :: "env \<Rightarrow> trace \<Rightarrow> (exn + result) \<times> trace" where
  "perform_health_check env tr =
     (let (primary_db, tr1) = check_primary_database env tr;
          (dr_replica, tr2) = check_dr_replica env tr1;
          (replication_lag, tr3) = check_replication_lag env tr2;
          (route53_health, tr4) = check_route53_health env tr3
      in case health_status_of primary_db dr_replica replication_lag route53_health of
           Inl e \<Rightarrow> (Inl e, tr4)
         | Inr health_status \<Rightarrow>
             (case getitem health_status ''overall_status'' of
                Inl e \<Rightarrow> (Inl e, tr4)
              | Inr overall \<Rightarrow>
                  (let tr5 =
                         (if overall = JStr ''unhealthy''
                          then send_notification env
                                 (''DR Health Check Failed: '' @ json_dumps env (Some 2) (JObj health_status))
                                 ''WARNING'' tr4
                          else tr4)
                   in (Inr \<lparr>statusCode = 200, body = json_dumps env None (JObj health_status)\<rparr>, tr5))))"

subsection \<open>Waiting for a database status\<close>

text \<open>
  The \<^verbatim>\<open>while\<close> loop of \<^verbatim>\<open>wait_for_db_status\<close>, with \<^verbatim>\<open>wait_time\<close> as an argument. A poll
  that raises, or a response with no instance, ends the loop with that exception.
\<close>

function wait_loop ::
  "env \<Rightarrow> string \<Rightarrow> string \<Rightarrow> rds \<Rightarrow> int \<Rightarrow> int \<Rightarrow> trace \<Rightarrow> (exn + bool) \<times> trace" where
  "wait_loop env db_identifier target_status rds_client max_wait wait_time tr =
     (if wait_time < max_wait then
        (let tr' = tr @ [DescribeDBInstances rds_client (Some db_identifier)]
         in case describe_db_instances env rds_client (calls_of (is_describe rds_client) tr) of
              Inl e \<Rightarrow> (Inl e, tr')
            | Inr response \<Rightarrow>
                (case DBInstances response of
                   [] \<Rightarrow> (Inl (IndexError ''list index out of range''), tr')
                 | db_instance # rest \<Rightarrow>
                     if DBInstanceStatus db_instance = target_status then (Inr True, tr')
                     else wait_loop env db_identifier target_status rds_client max_wait
                            (wait_time + 30) (tr' @ [Sleep 30])))
      else
        (Inl (PyException (''Database '' @ db_identifier @ '' did not reach '' @ target_status
                @ '' status within '' @ str_int max_wait @ '' seconds'')), tr))"
  by pat_completeness auto
termination
  by (relation "measure (\<lambda>(env, d, t, r, max_wait, wait_time, tr). nat (max_wait - wait_time))") auto

declare wait_loop.simps [simp del]

definition wait_for_db_status ::
  "env \<Rightarrow> string \<Rightarrow> string \<Rightarrow> rds \<Rightarrow> int \<Rightarrow> trace \<Rightarrow> (exn + bool) \<times> trace" where
  "wait_for_db_status env db_identifier target_status rds_client max_wait tr =
     wait_loop env db_identifier target_status rds_client max_wait 0 tr"

subsection \<open>Failover\<close>

text \<open>The \<^verbatim>\<open>except\<close> clause of \<^verbatim>\<open>initiate_failover\<close>, with the steps completed when it is entered.\<close>

definition failover_except :: "env \<Rightarrow> string list \<Rightarrow> exn \<Rightarrow> trace \<Rightarrow> (exn + result) \<times> trace" where
  "failover_except env steps_completed e tr =
     (let error_msg = ''Failover failed at step '' @ str_nat (length steps_completed) @ '': '' @ str_exn e
      in (Inl e, send_notification env error_msg ''ERROR'' tr))"

definition initiate_failover :: "env \<Rightarrow> trace \<Rightarrow> (exn + result) \<times> trace" where
  "initiate_failover env tr =
     (let steps_completed = [];
          tr1 = send_notification env ''Starting DR failover procedure'' ''INFO'' tr;
          tr2 = tr1 @ [PromoteReadReplica (dr_replica_id env)]
      in case promote_read_replica env (calls_of is_promote tr1) of
           Inl e \<Rightarrow> failover_except env steps_completed e tr2
         | Inr promote_response \<Rightarrow>
             (let steps_completed = steps_completed @ [''promoted_replica'']
              in case wait_for_db_status env (dr_replica_id env) ''available'' DR 1800 tr2 of
                   (Inl e, tr3) \<Rightarrow> failover_except env steps_completed e tr3
                 | (Inr w, tr3) \<Rightarrow>
                     (let steps_completed = steps_completed @ [''replica_promotion_complete''];
                          steps_completed = steps_completed @ [''dns_updated''];
                          tr4 = send_notification env
                                  (''DR Failover completed successfully. Steps: ''
                                     @ repr_str_list steps_completed)
                                  ''SUCCESS'' tr3
                      in (Inr \<lparr>statusCode = 200,
                               body = json_dumps env None
                                 (JObj [(''message'', JStr ''Failover initiated successfully''),
                                        (''steps_completed'', JList (map JStr steps_completed)),
                                        (''timestamp'', JStr (timestamp env))])\<rparr>, tr4))))"

subsection \<open>Failback\<close>

definition failback_except :: "env \<Rightarrow> exn \<Rightarrow> trace \<Rightarrow> (exn + result) \<times> trace" where
  "failback_except env e tr =
     (let error_msg = ''Failback failed: '' @ str_exn e
      in (Inl e, send_notification env error_msg ''ERROR'' tr))"

definition initiate_failback :: "env \<Rightarrow> trace \<Rightarrow> (exn + result) \<times> trace" where
  "initiate_failback env tr =
     (let steps_completed = [];
          tr1 = send_notification env ''Starting failback procedure'' ''INFO'' tr;
          (primary_health, tr2) = check_primary_database env tr1
      in case getitem primary_health ''healthy'' of
           Inl e \<Rightarrow> failback_except env e tr2
         | Inr healthy \<Rightarrow>
             if \<not> truthy healthy then
               failback_except env
                 (PyException ''Primary database is not healthy, cannot failback'') tr2
             else
               (let steps_completed = steps_completed @ [''primary_health_verified''];
                    steps_completed = steps_completed @ [''dns_reverted''];
                    tr3 = send_notification env
                            (''Failback completed successfully. Steps: ''
                               @ repr_str_list steps_completed)
                            ''SUCCESS'' tr2
                in (Inr \<lparr>statusCode = 200,
                         body = json_dumps env None
                           (JObj [(''message'', JStr ''Failback completed successfully''),
                                  (''steps_completed'', JList (map JStr steps_completed)),
                                  (''timestamp'', JStr (timestamp env))])\<rparr>, tr3)))"

subsection \<open>Disaster-recovery test\<close>

text \<open>What a probe's own \<^verbatim>\<open>except\<close> clause returns.\<close>

definition probe_error :: "exn \<Rightarrow> dict" where
  "probe_error e = [(''success'', JBool False), (''error'', JStr (str_exn e))]"

text \<open>
  A method of \<^verbatim>\<open>self\<close> as it is called: it returns a dictionary or raises. \<open>returns\<close>
  is a method that never raises.
\<close>

type_synonym probe = "trace \<Rightarrow> (exn + dict) \<times> trace"

definition returns :: "(trace \<Rightarrow> dict \<times> trace) \<Rightarrow> probe" where
  "returns f tr = (case f tr of (d, tr') \<Rightarrow> (Inr d, tr'))"

text \<open>
  \<^verbatim>\<open>test_dr_connectivity\<close> and \<^verbatim>\<open>test_monitoring_alerts\<close> wrap a call of a method of
  \<^verbatim>\<open>self\<close> in \<^verbatim>\<open>try\<close>. The outcome of that call is a parameter of the \<open>_of\<close> functions, so
  that the \<^verbatim>\<open>except\<close> clause is part of the model; the functions without the suffix pass
  the methods of the class, which never raise. \<^verbatim>\<open>simulate_failover\<close> and
  \<^verbatim>\<open>test_backup_integrity\<close> have no \<^verbatim>\<open>try\<close>: they return a fixed dictionary.
\<close>

definition test_dr_connectivity_of :: "probe \<Rightarrow> trace \<Rightarrow> dict \<times> trace" where
  "test_dr_connectivity_of check tr =
     (case check tr of
        (Inl e, tr') \<Rightarrow> (probe_error e, tr')
      | (Inr dr_health, tr') \<Rightarrow>
          (case getitem dr_health ''healthy'' of
             Inl e \<Rightarrow> (probe_error e, tr')
           | Inr healthy \<Rightarrow> ([(''success'', healthy), (''details'', JObj dr_health)], tr')))"

definition test_dr_connectivity :: "env \<Rightarrow> trace \<Rightarrow> dict \<times> trace" where
  "test_dr_connectivity env tr = test_dr_connectivity_of (returns (check_dr_replica env)) tr"

definition simulate_failover :: "trace \<Rightarrow> dict \<times> trace" where
  "simulate_failover tr =
     ([(''success'', JBool True),
       (''simulated_steps'',
          JList [JStr ''promote_replica'', JStr ''update_dns'', JStr ''verify_connectivity''])], tr)"

definition test_monitoring_alerts_of ::
  "(string \<Rightarrow> string \<Rightarrow> trace \<Rightarrow> (exn + unit) \<times> trace) \<Rightarrow> trace \<Rightarrow> dict \<times> trace" where
  "test_monitoring_alerts_of notify tr =
     (case notify ''DR Test Alert'' ''TEST'' tr of
        (Inl e, tr') \<Rightarrow> (probe_error e, tr')
      | (Inr u, tr') \<Rightarrow> ([(''success'', JBool True), (''alert_sent'', JBool True)], tr'))"

definition test_monitoring_alerts :: "env \<Rightarrow> trace \<Rightarrow> dict \<times> trace" where
  "test_monitoring_alerts env tr =
     test_monitoring_alerts_of (\<lambda>m s t. (Inr (), send_notification env m s t)) tr"

definition test_backup_integrity :: "trace \<Rightarrow> dict \<times> trace" where
  "test_backup_integrity tr =
     ([(''success'', JBool True), (''backups_verified'', JBool True)], tr)"

definition json_of_results :: "(string \<times> dict) list \<Rightarrow> jval" where
  "json_of_results test_results = JObj (map (\<lambda>(k, d). (k, JObj d)) test_results)"

text \<open>
  Lines 283 to 288 of \<^verbatim>\<open>test_disaster_recovery\<close>: the dictionary literal calls the four
  probe methods in order. A probe that raises ends the evaluation with its exception, at
  the trace it left.
\<close>

definition run_probes ::
  "probe \<Rightarrow> probe \<Rightarrow> probe \<Rightarrow> probe \<Rightarrow> trace \<Rightarrow> (exn + (string \<times> dict) list) \<times> trace" where
  "run_probes connectivity simulation alerts backup tr =
     (case connectivity tr of
        (Inl e, tr1) \<Rightarrow> (Inl e, tr1)
      | (Inr c, tr1) \<Rightarrow>
          (case simulation tr1 of
             (Inl e, tr2) \<Rightarrow> (Inl e, tr2)
           | (Inr s, tr2) \<Rightarrow>
               (case alerts tr2 of
                  (Inl e, tr3) \<Rightarrow> (Inl e, tr3)
                | (Inr a, tr3) \<Rightarrow>
                    (case backup tr3 of
                       (Inl e, tr4) \<Rightarrow> (Inl e, tr4)
                     | (Inr b, tr4) \<Rightarrow>
                         (Inr [(''dr_replica_connectivity'', c),
                               (''failover_simulation'', s),
                               (''monitoring_alerts'', a),
                               (''backup_integrity'', b)], tr4)))))"

text \<open>The \<^verbatim>\<open>except\<close> clause of \<^verbatim>\<open>test_disaster_recovery\<close> (lines 307 to 310).\<close>

definition test_disaster_recovery_except ::
  "env \<Rightarrow> exn \<Rightarrow> trace \<Rightarrow> (exn + result) \<times> trace" where
  "test_disaster_recovery_except env e tr =
     (let error_msg = ''DR testing failed: '' @ str_exn e
      in (Inl e, send_notification env error_msg ''ERROR'' tr))"

text \<open>
  \<^verbatim>\<open>test_disaster_recovery\<close>, with the four probe methods of \<^verbatim>\<open>self\<close> as parameters, so
  that a probe that raises has an outcome here: the exception reaches the \<^verbatim>\<open>except\<close> clause.
  Nothing after the probes raises (\<^verbatim>\<open>dict.get\<close>, \<^verbatim>\<open>all\<close>, \<^verbatim>\<open>send_notification\<close>).
  \<^verbatim>\<open>test_disaster_recovery\<close> itself passes the methods of the class.
\<close>

definition test_disaster_recovery_of ::
  "env \<Rightarrow> probe \<Rightarrow> probe \<Rightarrow> probe \<Rightarrow> probe \<Rightarrow> trace \<Rightarrow> (exn + result) \<times> trace" where
  "test_disaster_recovery_of env connectivity simulation alerts backup tr =
     (case run_probes connectivity simulation alerts backup tr of
        (Inl e, tr') \<Rightarrow> test_disaster_recovery_except env e tr'
      | (Inr test_results, tr4) \<Rightarrow>
          (let overall_success =
                 list_all (\<lambda>result. truthy (dict_get result ''success'' (JBool False)))
                   (map snd test_results);
               tr5 = send_notification env
                       (''DR Test Results: '' @ (if overall_success then ''PASSED'' else ''FAILED'')
                          @ ''\<newline>Details: ''
                          @ json_dumps env (Some 2) (json_of_results test_results))
                       ''INFO'' tr4
           in (Inr \<lparr>statusCode = 200,
                    body = json_dumps env None
                      (JObj [(''test_results'', json_of_results test_results),
                             (''overall_success'', JBool overall_success),
                             (''timestamp'', JStr (timestamp env))])\<rparr>, tr5)))"

definition test_disaster_recovery :: "env \<Rightarrow> trace \<Rightarrow> (exn + result) \<times> trace" where
  "test_disaster_recovery env tr =
     test_disaster_recovery_of env
       (returns (test_dr_connectivity env)) (returns simulate_failover)
       (returns (test_monitoring_alerts env)) (returns test_backup_integrity) tr"

subsection \<open>The handler\<close>

text \<open>
  A value of the event dictionary: a string, or any other value, kept as what \<^verbatim>\<open>str\<close>
  prints for it (such a value never equals a string literal).
\<close>

datatype pyval = PyStr string | PyOther string

fun str_pyval :: "pyval \<Rightarrow> string" where
  "str_pyval (PyStr s) = s"
| "str_pyval (PyOther s) = s"

type_synonym event = "string \<rightharpoonup> pyval"

text \<open>The \<^verbatim>\<open>except\<close> clause of \<^verbatim>\<open>handler\<close>, applied to the outcome of its \<^verbatim>\<open>try\<close> body.\<close>

definition handler_except :: "env \<Rightarrow> (exn + result) \<times> trace \<Rightarrow> result \<times> trace" where
  "handler_except env outcome =
     (case outcome of
        (Inr r, tr) \<Rightarrow> (r, tr)
      | (Inl e, tr) \<Rightarrow>
          (let error_msg = ''DR Automation failed: '' @ str_exn e
           in (\<lparr>statusCode = 500,
                body = json_dumps env None
                  (JObj [(''error'', JStr error_msg), (''timestamp'', JStr (timestamp env))])\<rparr>,
               send_notification env error_msg ''ERROR'' tr)))"

definition handler :: "env \<Rightarrow> event \<Rightarrow> trace \<Rightarrow> result \<times> trace" where
  "handler env event tr =
     handler_except env
       (let action = (case event ''action'' of Some v \<Rightarrow> v | None \<Rightarrow> PyStr ''health_check'')
        in if action = PyStr ''health_check'' then perform_health_check env tr
           else if action = PyStr ''initiate_failover'' then initiate_failover env tr
           else if action = PyStr ''failback'' then initiate_failback env tr
           else if action = PyStr ''test_dr'' then test_disaster_recovery env tr
           else (Inl (ValueError (''Unknown action: '' @ str_pyval action)), tr))"

subsection \<open>A sample environment\<close>

text \<open>
  Every collaborator answers; the replica reports \<^verbatim>\<open>modifying\<close> at its first poll and
  \<^verbatim>\<open>available\<close> from then on; the lag metric has one datapoint of 12 seconds. Its
  \<^verbatim>\<open>json.dumps\<close> stand-in prints the keys of a dictionary, one after the other.
\<close>

definition sample_instance :: "string \<Rightarrow> db_instance" where
  "sample_instance status =
     \<lparr>DBInstanceStatus = status, Endpoint = Some \<lparr>Address = Some ''db.example''\<rparr>,
      MultiAZ = True, ReadReplicaSourceDBInstanceIdentifier = Some ''appdb''\<rparr>"

definition sample_env :: env where
  "sample_env =
     \<lparr>ENVIRONMENT = ''production'',
      DB_IDENTIFIER = Some ''appdb'',
      SNS_TOPIC_ARN = Some ''arn:aws:sns:us-east-1:1:dr'',
      timestamp = ''2024-01-01T00:00:00+00:00'',
      describe_db_instances =
        (\<lambda>client n.
           if client = DR \<and> n = 0
           then Inr \<lparr>DBInstances = [sample_instance ''modifying'']\<rparr>
           else Inr \<lparr>DBInstances = [sample_instance ''available'']\<rparr>),
      promote_read_replica = (\<lambda>n. Inr ()),
      get_metric_statistics = (\<lambda>n. Inr \<lparr>Datapoints = [\<lparr>Average = 12\<rparr>]\<rparr>),
      publish = (\<lambda>n. Inr ()),
      json_dumps = (\<lambda>indent v. (case v of JObj d \<Rightarrow> concat (map fst d) | _ \<Rightarrow> [])) \<rparr>"

subsection \<open>Reading reports and traces\<close>

text \<open>A sub-check reports healthy when its \<^verbatim>\<open>healthy\<close> entry is there and true.\<close>

definition reports_healthy :: "dict \<Rightarrow> bool" where
  "reports_healthy d = (case getitem d ''healthy'' of Inl e \<Rightarrow> False | Inr v \<Rightarrow> truthy v)"

text \<open>The \<^verbatim>\<open>overall_status\<close> entry of a report, when the report was built.\<close>

definition overall_status :: "exn + dict \<Rightarrow> exn + jval" where
  "overall_status r = (case r of Inl e \<Rightarrow> Inl e | Inr hs \<Rightarrow> getitem hs ''overall_status'')"

text \<open>The report expected of four sub-check dictionaries: DNS health is listed, not judged.\<close>

definition health_report :: "dict \<Rightarrow> dict \<Rightarrow> dict \<Rightarrow> dict \<Rightarrow> dict" where
  "health_report p d l r =
     [(''primary_db'', JObj p), (''dr_replica'', JObj d), (''replication_lag'', JObj l),
      (''route53_health'', JObj r),
      (''overall_status'',
         JStr (if reports_healthy p \<and> reports_healthy d \<and> reports_healthy l
               then ''healthy'' else ''unhealthy''))]"


text \<open>
  The status the \<open>n\<close>-th \<^verbatim>\<open>describe_db_instances\<close> call of a client observes; \<open>None\<close> when
  the call raises or lists no instance.
\<close>

definition poll_status :: "env \<Rightarrow> rds \<Rightarrow> nat \<Rightarrow> string option" where
  "poll_status env r n =
     (case describe_db_instances env r n of
        Inl e \<Rightarrow> None
      | Inr response \<Rightarrow>
          (case DBInstances response of [] \<Rightarrow> None | d # rest \<Rightarrow> Some (DBInstanceStatus d)))"

text \<open>The trace of \<open>k\<close> rounds of the wait loop: a poll, then a sleep of 30 seconds.\<close>

definition poll_rounds :: "nat \<Rightarrow> rds \<Rightarrow> string \<Rightarrow> trace" where
  "poll_rounds k r db = concat (replicate k [DescribeDBInstances r (Some db), Sleep 30])"

text \<open>The exception \<^verbatim>\<open>wait_for_db_status\<close> raises when the wait is used up.\<close>

definition timeout_error :: "string \<Rightarrow> string \<Rightarrow> int \<Rightarrow> exn" where
  "timeout_error db target max_wait =
     PyException (''Database '' @ db @ '' did not reach '' @ target
        @ '' status within '' @ str_int max_wait @ '' seconds'')"

text \<open>The sample environment with a replica that stays in \<^verbatim>\<open>modifying\<close>.\<close>

definition stuck_env :: env where
  "stuck_env = sample_env\<lparr>describe_db_instances :=
      (\<lambda>client n. Inr \<lparr>DBInstances = [sample_instance ''modifying'']\<rparr>)\<rparr>"

text \<open>Log entries of \<^verbatim>\<open>print\<close>.\<close>

fun is_print :: "call \<Rightarrow> bool" where
  "is_print (Print s) = True"
| "is_print _ = False"

text \<open>Sample environments whose promote call, or whose primary database, fails.\<close>

definition promote_fail_env :: env where
  "promote_fail_env = sample_env\<lparr>promote_read_replica := (\<lambda>n. Inl (CollaboratorError ''promotion refused''))\<rparr>"

definition primary_down_env :: env where
  "primary_down_env = sample_env\<lparr>describe_db_instances :=
      (\<lambda>client n. if client = Primary then Inl (CollaboratorError ''primary unreachable'')
                   else describe_db_instances sample_env client n)\<rparr>"

text \<open>The event that asks for a failover.\<close>

definition failover_event :: event where
  "failover_event = [''action'' \<mapsto> PyStr ''initiate_failover'']"

text \<open>The steps of a completed failback, and the trace once the primary has been polled.\<close>

definition failback_steps :: "string list" where
  "failback_steps = [''primary_health_verified'', ''dns_reverted'']"

definition failback_polled :: "env \<Rightarrow> trace \<Rightarrow> trace" where
  "failback_polled env tr =
     send_notification env ''Starting failback procedure'' ''INFO'' tr
       @ [DescribeDBInstances Primary (DB_IDENTIFIER env)]"

text \<open>The flag \<^verbatim>\<open>overall_success\<close> reads from a probe's dictionary.\<close>

definition probe_success :: "dict \<Rightarrow> bool" where
  "probe_success result = truthy (dict_get result ''success'' (JBool False))"







text \<open>
  The four dictionaries the probe methods of the class return: the connectivity probe
  reports the replica check, the other three are fixed.
\<close>

definition own_results :: "env \<Rightarrow> trace \<Rightarrow> (string \<times> dict) list" where
  "own_results env tr =
     [(''dr_replica_connectivity'',
         [(''success'', JBool (reports_healthy (fst (check_dr_replica env tr)))),
          (''details'', JObj (fst (check_dr_replica env tr)))]),
      (''failover_simulation'',
         [(''success'', JBool True),
          (''simulated_steps'',
             JList [JStr ''promote_replica'', JStr ''update_dns'', JStr ''verify_connectivity''])]),
      (''monitoring_alerts'', [(''success'', JBool True), (''alert_sent'', JBool True)]),
      (''backup_integrity'', [(''success'', JBool True), (''backups_verified'', JBool True)])]"

text \<open>An event whose action is \<^verbatim>\<open>failover\<close>.\<close>

definition unknown_event :: event where
  "unknown_event = [''action'' \<mapsto> PyStr ''failover'']"

section \<open>Properties\<close>

subsection \<open>Counting calls\<close>

lemma calls_of_append: "calls_of p (xs @ ys) = calls_of p xs + calls_of p ys"
  by (simp add: calls_of_def)

lemma calls_of_Nil: "calls_of p [] = 0"
  by (simp add: calls_of_def)

lemma calls_of_Cons: "calls_of p (c # cs) = (if p c then 1 else 0) + calls_of p cs"
  by (simp add: calls_of_def)

lemma subject_of_inject: "subject_of env s = subject_of env s' \<longleftrightarrow> s = s'"
  by (simp add: subject_of_def)

lemma describe_send_notification:
  "calls_of (is_describe r) (send_notification env m s tr) = calls_of (is_describe r) tr"
  by (cases "publish env (calls_of is_publish tr)")
     (simp_all add: send_notification_def Let_def calls_of_def)

lemma promote_send_notification:
  "calls_of is_promote (send_notification env m s tr) = calls_of is_promote tr"
  by (cases "publish env (calls_of is_publish tr)")
     (simp_all add: send_notification_def Let_def calls_of_def)

lemma metrics_send_notification:
  "calls_of is_metrics (send_notification env m s tr) = calls_of is_metrics tr"
  by (cases "publish env (calls_of is_publish tr)")
     (simp_all add: send_notification_def Let_def calls_of_def)

lemma sleep_send_notification:
  "calls_of is_sleep (send_notification env m s tr) = calls_of is_sleep tr"
  by (cases "publish env (calls_of is_publish tr)")
     (simp_all add: send_notification_def Let_def calls_of_def)

lemma publish_send_notification:
  "calls_of is_publish (send_notification env m s tr) = Suc (calls_of is_publish tr)"
  by (cases "publish env (calls_of is_publish tr)")
     (simp_all add: send_notification_def Let_def calls_of_def)

lemma notification_send_notification:
  "calls_of (is_notification env sev) (send_notification env m s tr)
     = calls_of (is_notification env sev) tr + (if s = sev then 1 else 0)"
  by (cases "publish env (calls_of is_publish tr)")
     (simp_all add: send_notification_def Let_def calls_of_def subject_of_inject)

subsection \<open>Sub-checks\<close>

lemma check_primary_database_trace:
  "snd (check_primary_database env tr) = tr @ [DescribeDBInstances Primary (DB_IDENTIFIER env)]"
  by (simp add: check_primary_database_def Let_def split: sum.splits list.splits)

lemma check_dr_replica_trace:
  "snd (check_dr_replica env tr) = tr @ [DescribeDBInstances DR (Some (dr_replica_id env))]"
  by (simp add: check_dr_replica_def Let_def split: sum.splits list.splits)

lemma check_replication_lag_trace:
  "snd (check_replication_lag env tr) = tr @ [GetMetricStatistics (dr_replica_id env)]"
  by (simp add: check_replication_lag_def Let_def split: sum.splits list.splits)

text \<open>A sub-check's dictionary depends on the trace only through the number of earlier calls.\<close>

lemma check_primary_database_cong:
  "calls_of (is_describe Primary) tr' = calls_of (is_describe Primary) tr
     \<Longrightarrow> fst (check_primary_database env tr') = fst (check_primary_database env tr)"
  by (simp add: check_primary_database_def Let_def split: sum.splits list.splits)

lemma check_dr_replica_cong:
  "calls_of (is_describe DR) tr' = calls_of (is_describe DR) tr
     \<Longrightarrow> fst (check_dr_replica env tr') = fst (check_dr_replica env tr)"
  by (simp add: check_dr_replica_def Let_def split: sum.splits list.splits)

lemma check_replication_lag_cong:
  "calls_of is_metrics tr' = calls_of is_metrics tr
     \<Longrightarrow> fst (check_replication_lag env tr') = fst (check_replication_lag env tr)"
  by (simp add: check_replication_lag_def Let_def split: sum.splits list.splits)

text \<open>Every sub-check dictionary has a Boolean \<^verbatim>\<open>healthy\<close> entry, so reading it never raises.\<close>

lemma primary_has_healthy:
  "\<exists>b. getitem (fst (check_primary_database env tr)) ''healthy'' = Inr (JBool b)"
  by (auto simp add: check_primary_database_def Let_def getitem_def error_dict_def
        split: sum.splits list.splits)

lemma replica_has_healthy:
  "\<exists>b. getitem (fst (check_dr_replica env tr)) ''healthy'' = Inr (JBool b)"
  by (auto simp add: check_dr_replica_def Let_def getitem_def error_dict_def
        split: sum.splits list.splits)

lemma lag_has_healthy:
  "\<exists>b. getitem (fst (check_replication_lag env tr)) ''healthy'' = Inr (JBool b)"
  by (auto simp add: check_replication_lag_def Let_def getitem_def error_dict_def
        split: sum.splits list.splits)



subsection \<open>Health check\<close>

lemma health_status_of_flags:
  assumes "getitem p ''healthy'' = Inr a" "getitem d ''healthy'' = Inr b"
    "getitem l ''healthy'' = Inr c"
  shows "health_status_of p d l r = Inr (health_report p d l r)"
  using assms by (simp add: health_status_of_def health_report_def reports_healthy_def Let_def)

lemma health_status_of_dns:
  "overall_status (health_status_of p d l r) = overall_status (health_status_of p d l r')"
  by (simp add: health_status_of_def overall_status_def Let_def getitem_def
        split: sum.splits option.splits)

lemma health_report_overall:
  "getitem (health_report p d l r) ''overall_status'' = Inr (JStr ''healthy'')
     \<longleftrightarrow> reports_healthy p \<and> reports_healthy d \<and> reports_healthy l"
  by (simp add: health_report_def getitem_def)

lemma perform_health_check_result:
  "fst (perform_health_check env tr)
     = Inr \<lparr>statusCode = 200,
            body = json_dumps env None
              (JObj (health_report (fst (check_primary_database env tr))
                       (fst (check_dr_replica env tr)) (fst (check_replication_lag env tr))
                       (fst (check_route53_health env tr))))\<rparr>"
proof -
  obtain a where a: "getitem (fst (check_primary_database env tr)) ''healthy'' = Inr (JBool a)"
    using primary_has_healthy by blast
  obtain b where b: "getitem (fst (check_dr_replica env tr)) ''healthy'' = Inr (JBool b)"
    using replica_has_healthy by blast
  obtain c where c: "getitem (fst (check_replication_lag env tr)) ''healthy'' = Inr (JBool c)"
    using lag_has_healthy by blast
  let ?tr1 = "snd (check_primary_database env tr)"
  let ?tr2 = "snd (check_dr_replica env ?tr1)"
  have d: "fst (check_dr_replica env ?tr1) = fst (check_dr_replica env tr)"
    by (rule check_dr_replica_cong) (simp add: check_primary_database_trace calls_of_def)
  have l: "fst (check_replication_lag env ?tr2) = fst (check_replication_lag env tr)"
    by (rule check_replication_lag_cong)
       (simp add: check_primary_database_trace check_dr_replica_trace calls_of_def)
  have r: "fst (check_route53_health env t) = fst (check_route53_health env tr)" for t
    by (simp add: check_route53_health_def)
  have hs: "health_status_of (fst (check_primary_database env tr)) (fst (check_dr_replica env tr))
              (fst (check_replication_lag env tr)) (fst (check_route53_health env tr))
            = Inr (health_report (fst (check_primary_database env tr))
                (fst (check_dr_replica env tr)) (fst (check_replication_lag env tr))
                (fst (check_route53_health env tr)))"
    by (rule health_status_of_flags [OF a b c])
  have os: "\<exists>v. getitem (health_report p q l z) ''overall_status'' = Inr v" for p q l z
    by (simp add: health_report_def getitem_def)
  show ?thesis
    using os [of "fst (check_primary_database env tr)" "fst (check_dr_replica env tr)"
                 "fst (check_replication_lag env tr)" "fst (check_route53_health env tr)"]
    by (auto simp add: perform_health_check_def Let_def split_beta d l
          r [of "snd (check_replication_lag env ?tr2)"] hs)
qed

text \<open>
  C3. \<^verbatim>\<open>perform_health_check\<close> always returns status 200 with the report of its four
  sub-checks; the report's \<^verbatim>\<open>overall_status\<close> is \<^verbatim>\<open>healthy\<close> exactly when the primary
  database, the replica and the replication lag each report healthy; and whatever
  dictionary stands for the DNS sub-check, the aggregate is the same.
\<close>

theorem perform_health_check_aggregate:
  "fst (perform_health_check env tr)
     = Inr \<lparr>statusCode = 200,
            body = json_dumps env None
              (JObj (health_report (fst (check_primary_database env tr))
                       (fst (check_dr_replica env tr)) (fst (check_replication_lag env tr))
                       (fst (check_route53_health env tr))))\<rparr>
   \<and> (\<forall>p d l r.
         (getitem (health_report p d l r) ''overall_status'' = Inr (JStr ''healthy''))
           = (reports_healthy p \<and> reports_healthy d \<and> reports_healthy l))
   \<and> (\<forall>p d l r r'.
         overall_status (health_status_of p d l r) = overall_status (health_status_of p d l r'))"
  using perform_health_check_result health_report_overall health_status_of_dns by blast

subsection \<open>The wait loop\<close>

lemma poll_rounds_Suc:
  "poll_rounds (Suc k) r db = DescribeDBInstances r (Some db) # Sleep 30 # poll_rounds k r db"
  by (simp add: poll_rounds_def)

lemma poll_rounds_0: "poll_rounds 0 r db = []"
  by (simp add: poll_rounds_def)

lemma wait_loop_other:
  assumes "wait_time < max_wait"
    and "poll_status env r (calls_of (is_describe r) tr) = Some s" and "s \<noteq> target"
  shows "wait_loop env db target r max_wait wait_time tr
           = wait_loop env db target r max_wait (wait_time + 30)
               (tr @ [DescribeDBInstances r (Some db), Sleep 30])"
  using assms
  by (subst wait_loop.simps)
     (auto simp add: poll_status_def Let_def split: sum.splits list.splits)

lemma wait_loop_target:
  assumes "wait_time < max_wait"
    and "poll_status env r (calls_of (is_describe r) tr) = Some target"
  shows "wait_loop env db target r max_wait wait_time tr
           = (Inr True, tr @ [DescribeDBInstances r (Some db)])"
  using assms
  by (subst wait_loop.simps)
     (auto simp add: poll_status_def Let_def split: sum.splits list.splits)

lemma wait_loop_expired:
  assumes "\<not> wait_time < max_wait"
  shows "wait_loop env db target r max_wait wait_time tr = (Inl (timeout_error db target max_wait), tr)"
  using assms by (subst wait_loop.simps) (simp add: timeout_error_def)

lemma wait_loop_hit:
  assumes "\<And>j. j < k \<Longrightarrow> \<exists>s. poll_status env r (calls_of (is_describe r) tr + j) = Some s \<and> s \<noteq> target"
    and "poll_status env r (calls_of (is_describe r) tr + k) = Some target"
    and "wait_time + 30 * int k < max_wait"
  shows "wait_loop env db target r max_wait wait_time tr
           = (Inr True, tr @ poll_rounds k r db @ [DescribeDBInstances r (Some db)])"
  using assms
proof (induction k arbitrary: wait_time tr)
  case 0
  then show ?case by (simp add: wait_loop_target poll_rounds_0)
next
  case (Suc k)
  let ?tr = "tr @ [DescribeDBInstances r (Some db), Sleep 30]"
  have n: "calls_of (is_describe r) ?tr = Suc (calls_of (is_describe r) tr)"
    by (simp add: calls_of_def)
  obtain s where s: "poll_status env r (calls_of (is_describe r) tr) = Some s" "s \<noteq> target"
    using Suc.prems(1) [of 0] by auto
  have step: "wait_loop env db target r max_wait wait_time tr
                = wait_loop env db target r max_wait (wait_time + 30) ?tr"
    using Suc.prems(3) s by (intro wait_loop_other) auto
  have "wait_loop env db target r max_wait (wait_time + 30) ?tr
          = (Inr True, ?tr @ poll_rounds k r db @ [DescribeDBInstances r (Some db)])"
  proof (rule Suc.IH)
    fix j assume "j < k"
    then show "\<exists>s. poll_status env r (calls_of (is_describe r) ?tr + j) = Some s \<and> s \<noteq> target"
      using Suc.prems(1) [of "Suc j"] by (simp add: n)
  next
    show "poll_status env r (calls_of (is_describe r) ?tr + k) = Some target"
      using Suc.prems(2) by (simp add: n)
  next
    show "wait_time + 30 + 30 * int k < max_wait" using Suc.prems(3) by simp
  qed
  then show ?case by (simp add: step poll_rounds_Suc)
qed

lemma wait_loop_miss:
  assumes "\<And>j. j < k \<Longrightarrow> \<exists>s. poll_status env r (calls_of (is_describe r) tr + j) = Some s \<and> s \<noteq> target"
    and "max_wait \<le> wait_time + 30 * int k"
    and "k = 0 \<or> wait_time + 30 * (int k - 1) < max_wait"
  shows "wait_loop env db target r max_wait wait_time tr
           = (Inl (timeout_error db target max_wait), tr @ poll_rounds k r db)"
  using assms
proof (induction k arbitrary: wait_time tr)
  case 0
  then show ?case by (simp add: wait_loop_expired poll_rounds_0)
next
  case (Suc k)
  let ?tr = "tr @ [DescribeDBInstances r (Some db), Sleep 30]"
  have n: "calls_of (is_describe r) ?tr = Suc (calls_of (is_describe r) tr)"
    by (simp add: calls_of_def)
  obtain s where s: "poll_status env r (calls_of (is_describe r) tr) = Some s" "s \<noteq> target"
    using Suc.prems(1) [of 0] by auto
  have lt: "wait_time < max_wait" using Suc.prems(3) by simp
  have step: "wait_loop env db target r max_wait wait_time tr
                = wait_loop env db target r max_wait (wait_time + 30) ?tr"
    using lt s by (intro wait_loop_other) auto
  have "wait_loop env db target r max_wait (wait_time + 30) ?tr
          = (Inl (timeout_error db target max_wait), ?tr @ poll_rounds k r db)"
  proof (rule Suc.IH)
    fix j assume "j < k"
    then show "\<exists>s. poll_status env r (calls_of (is_describe r) ?tr + j) = Some s \<and> s \<noteq> target"
      using Suc.prems(1) [of "Suc j"] by (simp add: n)
  next
    show "max_wait \<le> wait_time + 30 + 30 * int k" using Suc.prems(2) by simp
  next
    show "k = 0 \<or> wait_time + 30 + 30 * (int k - 1) < max_wait" using Suc.prems(3) by auto
  qed
  then show ?case by (simp add: step poll_rounds_Suc)
qed

lemma wait_loop_polls_bound:
  "30 * int (calls_of (is_describe r) (snd (wait_loop env db target r max_wait wait_time tr)))
     \<le> 30 * int (calls_of (is_describe r) tr) + max 0 (max_wait - wait_time + 29)"
proof (induction env db target r max_wait wait_time tr rule: wait_loop.induct)
  case (1 env db target r max_wait wait_time tr)
  show ?case
  proof (cases "wait_time < max_wait")
    case False
    then show ?thesis by (subst wait_loop.simps) simp
  next
    case True
    show ?thesis
    proof (cases "describe_db_instances env r (calls_of (is_describe r) tr)")
      case (Inl e)
      then show ?thesis using True by (subst wait_loop.simps) (simp add: Let_def calls_of_def)
    next
      case (Inr response)
      show ?thesis
      proof (cases "DBInstances response")
        case Nil
        then show ?thesis using True Inr
          by (subst wait_loop.simps) (simp add: Let_def calls_of_def)
      next
        case (Cons d rest)
        show ?thesis
        proof (cases "DBInstanceStatus d = target")
          case hit: True
          then show ?thesis using True Inr Cons
            by (subst wait_loop.simps) (simp add: Let_def calls_of_def)
        next
          case miss: False
          have ih: "30 * int (calls_of (is_describe r)
                       (snd (wait_loop env db target r max_wait (wait_time + 30)
                          ((tr @ [DescribeDBInstances r (Some db)]) @ [Sleep 30]))))
                \<le> 30 * int (calls_of (is_describe r)
                       ((tr @ [DescribeDBInstances r (Some db)]) @ [Sleep 30]))
                    + max 0 (max_wait - (wait_time + 30) + 29)"
            using "1.IH" [OF True refl Inr Cons miss] .
          have eq: "wait_loop env db target r max_wait wait_time tr
                  = wait_loop env db target r max_wait (wait_time + 30)
                      ((tr @ [DescribeDBInstances r (Some db)]) @ [Sleep 30])"
            using True Inr Cons miss by (subst wait_loop.simps) (simp add: Let_def)
          show ?thesis using ih True unfolding eq by (simp add: calls_of_def)
        qed
      qed
    qed
  qed
qed


lemma notification_poll_rounds: "filter (is_notification env sev) (poll_rounds k r db) = []"
  by (induction k) (simp_all add: poll_rounds_0 poll_rounds_Suc)

lemma wait_loop_shape:
  "\<exists>k. (snd (wait_loop env db target r max_wait wait_time tr) = tr @ poll_rounds k r db
          \<and> 30 * int k \<le> max 0 (max_wait - wait_time + 29))
      \<or> (snd (wait_loop env db target r max_wait wait_time tr)
            = tr @ poll_rounds k r db @ [DescribeDBInstances r (Some db)]
          \<and> wait_time + 30 * int k < max_wait)"
proof (induction env db target r max_wait wait_time tr rule: wait_loop.induct)
  case (1 env db target r max_wait wait_time tr)
  show ?case
  proof (cases "wait_time < max_wait")
    case False
    then have "snd (wait_loop env db target r max_wait wait_time tr) = tr @ poll_rounds 0 r db"
      by (subst wait_loop.simps) (simp add: poll_rounds_0)
    then show ?thesis by (intro exI [of _ 0] disjI1) simp
  next
    case True
    have one: ?thesis
      if "snd (wait_loop env db target r max_wait wait_time tr)
            = tr @ [DescribeDBInstances r (Some db)]"
      using that True by (intro exI [of _ 0] disjI2) (simp add: poll_rounds_0)
    show ?thesis
    proof (cases "describe_db_instances env r (calls_of (is_describe r) tr)")
      case (Inl e)
      show ?thesis
        by (rule one, subst wait_loop.simps) (simp add: True Inl Let_def)
    next
      case (Inr response)
      show ?thesis
      proof (cases "DBInstances response")
        case Nil
        show ?thesis
          by (rule one, subst wait_loop.simps) (simp add: True Inr Nil Let_def)
      next
        case (Cons d rest)
        show ?thesis
        proof (cases "DBInstanceStatus d = target")
          case hit: True
          show ?thesis
            by (rule one, subst wait_loop.simps) (simp add: True Inr Cons hit Let_def)
        next
          case miss: False
          let ?tr = "(tr @ [DescribeDBInstances r (Some db)]) @ [Sleep 30]"
          have eq: "wait_loop env db target r max_wait wait_time tr
                  = wait_loop env db target r max_wait (wait_time + 30) ?tr"
            using True Inr Cons miss by (subst wait_loop.simps) (simp add: Let_def)
          obtain k where k:
            "(snd (wait_loop env db target r max_wait (wait_time + 30) ?tr) = ?tr @ poll_rounds k r db
                \<and> 30 * int k \<le> max 0 (max_wait - (wait_time + 30) + 29))
             \<or> (snd (wait_loop env db target r max_wait (wait_time + 30) ?tr)
                  = ?tr @ poll_rounds k r db @ [DescribeDBInstances r (Some db)]
                \<and> wait_time + 30 + 30 * int k < max_wait)"
            using "1.IH" [OF True refl Inr Cons miss] by blast
          show ?thesis
            using k True unfolding eq
            by (intro exI [of _ "Suc k"]) (auto simp add: poll_rounds_Suc)
        qed
      qed
    qed
  qed
qed

lemma wait_for_db_status_shape:
  "\<exists>k. (snd (wait_for_db_status env db target r 1800 tr) = tr @ poll_rounds k r db \<and> k \<le> 60)
      \<or> (snd (wait_for_db_status env db target r 1800 tr)
            = tr @ poll_rounds k r db @ [DescribeDBInstances r (Some db)] \<and> k < 60)"
proof -
  obtain k where k:
    "(snd (wait_loop env db target r 1800 0 tr) = tr @ poll_rounds k r db
          \<and> 30 * int k \<le> max 0 (1800 - 0 + 29))
      \<or> (snd (wait_loop env db target r 1800 0 tr)
            = tr @ poll_rounds k r db @ [DescribeDBInstances r (Some db)]
          \<and> 0 + 30 * int k < 1800)"
    using wait_loop_shape [of env db target r 1800 0 tr] by blast
  show ?thesis
    using k unfolding wait_for_db_status_def by (intro exI [of _ k]) auto
qed

text \<open>
  C8. \<^verbatim>\<open>wait_for_db_status\<close> is a total function (its loop is \<open>wait_loop\<close>, whose
  termination is proved above). With the default ceiling of 1800 seconds it makes at most
  60 polls, whatever the collaborator answers, and its trace is a number of rounds of poll
  and 30-second sleep, at most 60, ended or not by one more poll, which then follows fewer
  than 60 rounds. When the polls observe statuses, it returns
  true at the first poll that observes the target (after \<open>k\<close> rounds of poll and 30-second
  sleep, \<open>k < 60\<close>), and when none of the 60 polls observes it, it raises the timeout
  exception after 60 rounds, that is 1800 seconds of sleep, without a further poll.
\<close>

theorem wait_for_db_status_bounded:
  "calls_of (is_describe r) (snd (wait_for_db_status env db target r 1800 tr))
     \<le> calls_of (is_describe r) tr + 60
   \<and> (k < 60
        \<and> (\<forall>j<k. \<exists>s. poll_status env r (calls_of (is_describe r) tr + j) = Some s \<and> s \<noteq> target)
        \<and> poll_status env r (calls_of (is_describe r) tr + k) = Some target
      \<longrightarrow> wait_for_db_status env db target r 1800 tr
            = (Inr True, tr @ poll_rounds k r db @ [DescribeDBInstances r (Some db)]))
   \<and> ((\<forall>j<60. \<exists>s. poll_status env r (calls_of (is_describe r) tr + j) = Some s \<and> s \<noteq> target)
      \<longrightarrow> wait_for_db_status env db target r 1800 tr
            = (Inl (timeout_error db target 1800), tr @ poll_rounds 60 r db))
   \<and> (\<exists>n. (snd (wait_for_db_status env db target r 1800 tr) = tr @ poll_rounds n r db
               \<and> n \<le> 60)
           \<or> (snd (wait_for_db_status env db target r 1800 tr)
                 = tr @ poll_rounds n r db @ [DescribeDBInstances r (Some db)] \<and> n < 60))"
proof (intro conjI impI)
  show "calls_of (is_describe r) (snd (wait_for_db_status env db target r 1800 tr))
          \<le> calls_of (is_describe r) tr + 60"
    using wait_loop_polls_bound [of r env db target 1800 0 tr]
    by (simp add: wait_for_db_status_def)
next
  assume h: "k < 60
        \<and> (\<forall>j<k. \<exists>s. poll_status env r (calls_of (is_describe r) tr + j) = Some s \<and> s \<noteq> target)
        \<and> poll_status env r (calls_of (is_describe r) tr + k) = Some target"
  show "wait_for_db_status env db target r 1800 tr
            = (Inr True, tr @ poll_rounds k r db @ [DescribeDBInstances r (Some db)])"
    unfolding wait_for_db_status_def
    using h by (intro wait_loop_hit) auto
next
  assume h: "\<forall>j<60. \<exists>s. poll_status env r (calls_of (is_describe r) tr + j) = Some s \<and> s \<noteq> target"
  show "wait_for_db_status env db target r 1800 tr
            = (Inl (timeout_error db target 1800), tr @ poll_rounds 60 r db)"
    unfolding wait_for_db_status_def
    using h by (intro wait_loop_miss) auto
next
  show "\<exists>n. (snd (wait_for_db_status env db target r 1800 tr) = tr @ poll_rounds n r db
               \<and> n \<le> 60)
           \<or> (snd (wait_for_db_status env db target r 1800 tr)
                 = tr @ poll_rounds n r db @ [DescribeDBInstances r (Some db)] \<and> n < 60)"
    by (rule wait_for_db_status_shape)
qed

text \<open>
  The sample replica (\<^verbatim>\<open>modifying\<close>, then \<^verbatim>\<open>available\<close>) is reached at the second poll; a
  replica that stays in \<^verbatim>\<open>modifying\<close> times out after 60 polls and 60 sleeps.
\<close>

theorem wait_for_db_status_bounded_witness:
  "wait_for_db_status sample_env ''appdb-dr-replica'' ''available'' DR 1800 []
     = (Inr True, [DescribeDBInstances DR (Some ''appdb-dr-replica''), Sleep 30,
                   DescribeDBInstances DR (Some ''appdb-dr-replica'')])
   \<and> wait_for_db_status stuck_env ''appdb-dr-replica'' ''available'' DR 1800 []
     = (Inl (PyException ''Database appdb-dr-replica did not reach available status within 1800 seconds''),
        poll_rounds 60 DR ''appdb-dr-replica'')
   \<and> calls_of (is_describe DR) (poll_rounds 60 DR ''appdb-dr-replica'') = 60
   \<and> calls_of is_sleep (poll_rounds 60 DR ''appdb-dr-replica'') = 60"
proof -
  have a: "(1::nat) < 60
        \<and> (\<forall>j<1. \<exists>s. poll_status sample_env DR (calls_of (is_describe DR) [] + j) = Some s
                      \<and> s \<noteq> ''available'')
        \<and> poll_status sample_env DR (calls_of (is_describe DR) [] + 1) = Some ''available''"
    by (simp add: poll_status_def sample_env_def sample_instance_def calls_of_def)
  have b: "\<forall>j<60. \<exists>s. poll_status stuck_env DR (calls_of (is_describe DR) [] + j) = Some s
                      \<and> s \<noteq> ''available''"
    by (simp add: poll_status_def stuck_env_def sample_env_def sample_instance_def)
  have c: "calls_of p (poll_rounds k r db) = (if p (DescribeDBInstances r (Some db)) then k else 0)
             + (if p (Sleep 30) then k else 0)" for p k r db
    by (induction k) (simp_all add: poll_rounds_0 poll_rounds_Suc calls_of_def)
  have m: "timeout_error ''appdb-dr-replica'' ''available'' 1800
             = PyException ''Database appdb-dr-replica did not reach available status within 1800 seconds''"
    by (simp add: timeout_error_def str_int_def str_nat.simps digit_char_def)
  have p: "poll_rounds 1 DR ''appdb-dr-replica''
             = [DescribeDBInstances DR (Some ''appdb-dr-replica''), Sleep 30]"
    by (simp add: poll_rounds_def)
  show ?thesis
    using wait_for_db_status_bounded [of DR sample_env "''appdb-dr-replica''" "''available''" "[]" 1]
      wait_for_db_status_bounded [of DR stuck_env "''appdb-dr-replica''" "''available''" "[]" 0]
      a b
    by (simp add: c m p del: One_nat_def)
qed

subsection \<open>Failover\<close>

lemma initiate_failover_completes:
  assumes "promote_read_replica env (calls_of is_promote tr) = Inr u"
    and "k < 60"
    and "\<forall>j<k. \<exists>s. poll_status env DR (calls_of (is_describe DR) tr + j) = Some s \<and> s \<noteq> ''available''"
    and "poll_status env DR (calls_of (is_describe DR) tr + k) = Some ''available''"
  shows "fst (initiate_failover env tr)
           = Inr \<lparr>statusCode = 200,
                  body = json_dumps env None
                    (JObj [(''message'', JStr ''Failover initiated successfully''),
                           (''steps_completed'',
                              JList [JStr ''promoted_replica'', JStr ''replica_promotion_complete'',
                                     JStr ''dns_updated'']),
                           (''timestamp'', JStr (timestamp env))])\<rparr>
       \<and> snd (initiate_failover env tr)
           = send_notification env
               (''DR Failover completed successfully. Steps: ''
                  @ repr_str_list [''promoted_replica'', ''replica_promotion_complete'', ''dns_updated''])
               ''SUCCESS''
               (send_notification env ''Starting DR failover procedure'' ''INFO'' tr
                  @ [PromoteReadReplica (dr_replica_id env)]
                  @ poll_rounds k DR (dr_replica_id env)
                  @ [DescribeDBInstances DR (Some (dr_replica_id env))])
       \<and> calls_of (is_notification env ''SUCCESS'') (snd (initiate_failover env tr))
           = calls_of (is_notification env ''SUCCESS'') tr + 1
       \<and> calls_of (is_notification env ''ERROR'') (snd (initiate_failover env tr))
           = calls_of (is_notification env ''ERROR'') tr"
proof -
  let ?tr1 = "send_notification env ''Starting DR failover procedure'' ''INFO'' tr"
  let ?tr2 = "?tr1 @ [PromoteReadReplica (dr_replica_id env)]"
  have n: "calls_of (is_describe DR) ?tr2 = calls_of (is_describe DR) tr"
    by (simp add: calls_of_append describe_send_notification) (simp add: calls_of_def)
  have w: "wait_for_db_status env (dr_replica_id env) ''available'' DR 1800 ?tr2
             = (Inr True, ?tr2 @ poll_rounds k DR (dr_replica_id env)
                   @ [DescribeDBInstances DR (Some (dr_replica_id env))])"
    unfolding wait_for_db_status_def
    using assms(2-4) by (intro wait_loop_hit) (auto simp add: n)
  have r: "initiate_failover env tr
     = (Inr \<lparr>statusCode = 200,
                  body = json_dumps env None
                    (JObj [(''message'', JStr ''Failover initiated successfully''),
                           (''steps_completed'',
                              JList [JStr ''promoted_replica'', JStr ''replica_promotion_complete'',
                                     JStr ''dns_updated'']),
                           (''timestamp'', JStr (timestamp env))])\<rparr>,
        send_notification env
               (''DR Failover completed successfully. Steps: ''
                  @ repr_str_list [''promoted_replica'', ''replica_promotion_complete'', ''dns_updated''])
               ''SUCCESS''
               (?tr2 @ poll_rounds k DR (dr_replica_id env)
                  @ [DescribeDBInstances DR (Some (dr_replica_id env))]))"
    using assms(1) w by (simp add: initiate_failover_def Let_def promote_send_notification)
  show ?thesis
    by (simp add: r notification_send_notification calls_of_append)
       (simp add: calls_of_def notification_poll_rounds)
qed


text \<open>
  C5. When the promote call succeeds and the poll loop observes \<^verbatim>\<open>available\<close> at one of its
  60 polls (the earlier ones observing other statuses), \<^verbatim>\<open>initiate_failover\<close> returns
  status 200 with \<^verbatim>\<open>steps_completed\<close> equal to promoted_replica,
  replica_promotion_complete, dns_updated in that order, and sends exactly one SUCCESS
  notification and no ERROR notification.
\<close>

theorem initiate_failover_success:
  assumes "promote_read_replica env (calls_of is_promote tr) = Inr u"
    and "k < 60"
    and "\<forall>j<k. \<exists>s. poll_status env DR (calls_of (is_describe DR) tr + j) = Some s \<and> s \<noteq> ''available''"
    and "poll_status env DR (calls_of (is_describe DR) tr + k) = Some ''available''"
  shows "fst (initiate_failover env tr)
           = Inr \<lparr>statusCode = 200,
                  body = json_dumps env None
                    (JObj [(''message'', JStr ''Failover initiated successfully''),
                           (''steps_completed'',
                              JList [JStr ''promoted_replica'', JStr ''replica_promotion_complete'',
                                     JStr ''dns_updated'']),
                           (''timestamp'', JStr (timestamp env))])\<rparr>
       \<and> snd (initiate_failover env tr)
           = send_notification env
               (''DR Failover completed successfully. Steps: ''
                  @ repr_str_list [''promoted_replica'', ''replica_promotion_complete'', ''dns_updated''])
               ''SUCCESS''
               (send_notification env ''Starting DR failover procedure'' ''INFO'' tr
                  @ [PromoteReadReplica (dr_replica_id env)]
                  @ poll_rounds k DR (dr_replica_id env)
                  @ [DescribeDBInstances DR (Some (dr_replica_id env))])
       \<and> calls_of (is_notification env ''SUCCESS'') (snd (initiate_failover env tr))
           = calls_of (is_notification env ''SUCCESS'') tr + 1
       \<and> calls_of (is_notification env ''ERROR'') (snd (initiate_failover env tr))
           = calls_of (is_notification env ''ERROR'') tr"
  using assms by (rule initiate_failover_completes)

text \<open>In the sample environment the second poll observes \<^verbatim>\<open>available\<close>.\<close>

theorem initiate_failover_success_witness:
  "fst (initiate_failover sample_env [])
     = Inr \<lparr>statusCode = 200, body = ''messagesteps_completedtimestamp''\<rparr>
   \<and> calls_of (is_notification sample_env ''SUCCESS'') (snd (initiate_failover sample_env [])) = 1
   \<and> calls_of (is_notification sample_env ''ERROR'') (snd (initiate_failover sample_env [])) = 0"
proof -
  have a: "promote_read_replica sample_env (calls_of is_promote []) = Inr ()"
    by (simp add: sample_env_def)
  have k: "(1::nat) < 60" by simp
  have b: "\<forall>j<1. \<exists>s. poll_status sample_env DR (calls_of (is_describe DR) [] + j) = Some s
                      \<and> s \<noteq> ''available''"
    by (simp add: poll_status_def sample_env_def sample_instance_def calls_of_def)
  have c: "poll_status sample_env DR (calls_of (is_describe DR) [] + 1) = Some ''available''"
    by (simp add: poll_status_def sample_env_def sample_instance_def calls_of_def)
  have j: "json_dumps sample_env None (JObj [(''message'', x), (''steps_completed'', y), (''timestamp'', z)])
             = ''messagesteps_completedtimestamp''" for x y z
    by (simp add: sample_env_def)
  note t = initiate_failover_success [OF a k b c]
  have r: "fst (initiate_failover sample_env [])
             = Inr \<lparr>statusCode = 200, body = ''messagesteps_completedtimestamp''\<rparr>"
    using t [THEN conjunct1] by (simp add: j)
  have s: "calls_of (is_notification sample_env ''SUCCESS'') (snd (initiate_failover sample_env [])) = 1"
    using t [THEN conjunct2, THEN conjunct2, THEN conjunct1] by (simp add: calls_of_Nil)
  have e: "calls_of (is_notification sample_env ''ERROR'') (snd (initiate_failover sample_env [])) = 0"
    using t [THEN conjunct2, THEN conjunct2, THEN conjunct2] by (simp add: calls_of_Nil)
  show ?thesis using r s e by blast
qed

subsection \<open>Failover failures\<close>

lemma handler_except_raise:
  "handler_except env (Inl e, tr)
     = (\<lparr>statusCode = 500,
         body = json_dumps env None
           (JObj [(''error'', JStr (''DR Automation failed: '' @ str_exn e)),
                  (''timestamp'', JStr (timestamp env))])\<rparr>,
        send_notification env (''DR Automation failed: '' @ str_exn e) ''ERROR'' tr)"
  by (simp add: handler_except_def Let_def)

lemma handler_except_return: "handler_except env (Inr r, tr) = (r, tr)"
  by (simp add: handler_except_def)

lemma handler_initiate_failover:
  "event ''action'' = Some (PyStr ''initiate_failover'')
     \<Longrightarrow> handler env event tr = handler_except env (initiate_failover env tr)"
  by (simp add: handler_def Let_def)

lemma initiate_failover_promote_raises:
  assumes "promote_read_replica env (calls_of is_promote tr) = Inl e"
  shows "initiate_failover env tr
           = failover_except env [] e
               (send_notification env ''Starting DR failover procedure'' ''INFO'' tr
                  @ [PromoteReadReplica (dr_replica_id env)])"
  using assms by (simp add: initiate_failover_def Let_def promote_send_notification)

text \<open>
  C2, as the code has it. When the promote call raises, \<^verbatim>\<open>initiate_failover\<close> enters its
  \<^verbatim>\<open>except\<close> clause with \<^verbatim>\<open>steps_completed\<close> empty (the message names step 0), sends
  one ERROR notification and re-raises the exception. The handler that catches it sends a
  second ERROR notification and returns status 500: through the handler the failure is
  notified twice.
\<close>

theorem initiate_failover_promote_failure:
  assumes "promote_read_replica env (calls_of is_promote tr) = Inl e"
  shows "initiate_failover env tr
           = failover_except env [] e
               (send_notification env ''Starting DR failover procedure'' ''INFO'' tr
                  @ [PromoteReadReplica (dr_replica_id env)])
       \<and> fst (initiate_failover env tr) = Inl e
       \<and> snd (initiate_failover env tr)
           = send_notification env (''Failover failed at step 0: '' @ str_exn e) ''ERROR''
               (send_notification env ''Starting DR failover procedure'' ''INFO'' tr
                  @ [PromoteReadReplica (dr_replica_id env)])
       \<and> calls_of (is_notification env ''ERROR'') (snd (initiate_failover env tr))
           = calls_of (is_notification env ''ERROR'') tr + 1
       \<and> (event ''action'' = Some (PyStr ''initiate_failover'') \<longrightarrow>
            fst (handler env event tr)
              = \<lparr>statusCode = 500,
                 body = json_dumps env None
                   (JObj [(''error'', JStr (''DR Automation failed: '' @ str_exn e)),
                          (''timestamp'', JStr (timestamp env))])\<rparr>
            \<and> calls_of (is_notification env ''ERROR'') (snd (handler env event tr))
                = calls_of (is_notification env ''ERROR'') tr + 2)"
proof -
  let ?tr2 = "send_notification env ''Starting DR failover procedure'' ''INFO'' tr
                  @ [PromoteReadReplica (dr_replica_id env)]"
  note r = initiate_failover_promote_raises [OF assms]
  have x: "failover_except env [] e ?tr2
             = (Inl e, send_notification env (''Failover failed at step 0: '' @ str_exn e) ''ERROR'' ?tr2)"
    by (simp add: failover_except_def Let_def str_nat.simps digit_char_def)
  have n: "calls_of (is_notification env ''ERROR'') ?tr2 = calls_of (is_notification env ''ERROR'') tr"
    by (simp add: calls_of_append notification_send_notification) (simp add: calls_of_def)
  have c: "calls_of (is_notification env ''ERROR'') (snd (initiate_failover env tr))
           = calls_of (is_notification env ''ERROR'') tr + 1"
    by (simp add: r x notification_send_notification n)
  have h: "fst (handler env event tr)
              = \<lparr>statusCode = 500,
                 body = json_dumps env None
                   (JObj [(''error'', JStr (''DR Automation failed: '' @ str_exn e)),
                          (''timestamp'', JStr (timestamp env))])\<rparr>
            \<and> calls_of (is_notification env ''ERROR'') (snd (handler env event tr))
                = calls_of (is_notification env ''ERROR'') tr + 2"
    if "event ''action'' = Some (PyStr ''initiate_failover'')"
    by (simp add: handler_initiate_failover [of event, OF that] r x handler_except_raise
          notification_send_notification n)
  show ?thesis using r x c h by simp
qed

text \<open>A promote call that is refused, in the sample environment.\<close>

theorem initiate_failover_promote_failure_witness:
  "fst (initiate_failover promote_fail_env []) = Inl (CollaboratorError ''promotion refused'')
   \<and> calls_of (is_notification promote_fail_env ''ERROR'') (snd (initiate_failover promote_fail_env [])) = 1
   \<and> statusCode (fst (handler promote_fail_env failover_event [])) = 500"
proof -
  have a: "promote_read_replica promote_fail_env (calls_of is_promote [])
             = Inl (CollaboratorError ''promotion refused'')"
    by (simp add: promote_fail_env_def sample_env_def)
  have b: "failover_event ''action'' = Some (PyStr ''initiate_failover'')"
    by (simp add: failover_event_def)
  note t = initiate_failover_promote_failure [OF a, of failover_event]
  have 1: "fst (initiate_failover promote_fail_env []) = Inl (CollaboratorError ''promotion refused'')"
    using t [THEN conjunct2, THEN conjunct1] .
  have 2: "calls_of (is_notification promote_fail_env ''ERROR'') (snd (initiate_failover promote_fail_env [])) = 1"
    using t [THEN conjunct2, THEN conjunct2, THEN conjunct2, THEN conjunct1] by (simp add: calls_of_Nil)
  have 3: "statusCode (fst (handler promote_fail_env failover_event [])) = 500"
    using t [THEN conjunct2, THEN conjunct2, THEN conjunct2, THEN conjunct2] b by simp
  show ?thesis using 1 2 3 by blast
qed

text \<open>
  C2 as stated fails: with a promote call that raises, an invocation of the handler
  sends two ERROR notifications, not one.
\<close>

theorem failover_failure_notified_twice:
  "promote_read_replica promote_fail_env 0 = Inl (CollaboratorError ''promotion refused'')
   \<and> calls_of (is_notification promote_fail_env ''ERROR'')
        (snd (handler promote_fail_env failover_event [])) = 2"
proof -
  have a: "promote_read_replica promote_fail_env (calls_of is_promote [])
             = Inl (CollaboratorError ''promotion refused'')"
    by (simp add: promote_fail_env_def sample_env_def)
  have b: "failover_event ''action'' = Some (PyStr ''initiate_failover'')"
    by (simp add: failover_event_def)
  have "calls_of (is_notification promote_fail_env ''ERROR'')
        (snd (handler promote_fail_env failover_event [])) = 2"
    by (simp add: handler_initiate_failover [of failover_event, OF b] initiate_failover_promote_raises [OF a]
          failover_except_def Let_def handler_except_raise notification_send_notification
          calls_of_append)
       (simp add: calls_of_def)
  then show ?thesis by (simp add: promote_fail_env_def sample_env_def)
qed



subsection \<open>Failback\<close>

lemma send_notification_extends:
  "\<exists>new. send_notification env m s tr = tr @ new
      \<and> list_all (\<lambda>c. is_publish c \<or> is_print c) new \<and> calls_of is_publish new = 1"
  by (cases "publish env (calls_of is_publish tr)")
     (simp_all add: send_notification_def Let_def calls_of_def)

lemma initiate_failback_cases:
  "initiate_failback env tr =
     (if reports_healthy (fst (check_primary_database env tr)) then
        (Inr \<lparr>statusCode = 200,
              body = json_dumps env None
                (JObj [(''message'', JStr ''Failback completed successfully''),
                       (''steps_completed'', JList (map JStr failback_steps)),
                       (''timestamp'', JStr (timestamp env))])\<rparr>,
         send_notification env
           (''Failback completed successfully. Steps: '' @ repr_str_list failback_steps)
           ''SUCCESS'' (failback_polled env tr))
      else
        (Inl (PyException ''Primary database is not healthy, cannot failback''),
         send_notification env
           ''Failback failed: Primary database is not healthy, cannot failback''
           ''ERROR'' (failback_polled env tr)))"
proof -
  let ?tr1 = "send_notification env ''Starting failback procedure'' ''INFO'' tr"
  obtain b where b: "getitem (fst (check_primary_database env tr)) ''healthy'' = Inr (JBool b)"
    using primary_has_healthy by blast
  have rh: "reports_healthy (fst (check_primary_database env tr)) = b"
    by (simp add: reports_healthy_def b)
  have f: "fst (check_primary_database env ?tr1) = fst (check_primary_database env tr)"
    by (rule check_primary_database_cong) (simp add: describe_send_notification)
  have eq: "check_primary_database env ?tr1
              = (fst (check_primary_database env tr), failback_polled env tr)"
    by (simp add: prod_eq_iff f check_primary_database_trace failback_polled_def)
  show ?thesis
    by (simp add: initiate_failback_def Let_def eq b rh failback_except_def failback_steps_def)
qed

lemma failback_polled_counts:
  "calls_of (is_describe DR) (failback_polled env tr) = calls_of (is_describe DR) tr"
  "calls_of is_promote (failback_polled env tr) = calls_of is_promote tr"
  "calls_of is_metrics (failback_polled env tr) = calls_of is_metrics tr"
  "calls_of is_sleep (failback_polled env tr) = calls_of is_sleep tr"
  "calls_of (is_notification env ''SUCCESS'') (failback_polled env tr)
     = calls_of (is_notification env ''SUCCESS'') tr"
  "calls_of (is_notification env ''ERROR'') (failback_polled env tr)
     = calls_of (is_notification env ''ERROR'') tr"
  by (simp_all add: failback_polled_def calls_of_append describe_send_notification
        promote_send_notification metrics_send_notification sleep_send_notification
        notification_send_notification)
     (simp_all add: calls_of_def)

text \<open>
  C6. When the primary-database check does not report healthy, \<^verbatim>\<open>initiate_failback\<close>
  raises \<^verbatim>\<open>Primary database is not healthy, cannot failback\<close> right after the check: the
  trace gains the starting notification, the describe call on the primary and the ERROR
  notification, and no call on the replica client (describe or promote), no metrics call
  and no sleep. The source has no call on the DNS client at all, so the trace has no entry
  for one.
\<close>

theorem initiate_failback_unhealthy:
  assumes "\<not> reports_healthy (fst (check_primary_database env tr))"
  shows "fst (initiate_failback env tr)
           = Inl (PyException ''Primary database is not healthy, cannot failback'')
       \<and> snd (initiate_failback env tr)
           = send_notification env
               ''Failback failed: Primary database is not healthy, cannot failback'' ''ERROR''
               (send_notification env ''Starting failback procedure'' ''INFO'' tr
                  @ [DescribeDBInstances Primary (DB_IDENTIFIER env)])
       \<and> calls_of (is_describe DR) (snd (initiate_failback env tr)) = calls_of (is_describe DR) tr
       \<and> calls_of is_promote (snd (initiate_failback env tr)) = calls_of is_promote tr
       \<and> calls_of is_metrics (snd (initiate_failback env tr)) = calls_of is_metrics tr
       \<and> calls_of is_sleep (snd (initiate_failback env tr)) = calls_of is_sleep tr
       \<and> calls_of (is_notification env ''SUCCESS'') (snd (initiate_failback env tr))
           = calls_of (is_notification env ''SUCCESS'') tr
       \<and> calls_of (is_notification env ''ERROR'') (snd (initiate_failback env tr))
           = calls_of (is_notification env ''ERROR'') tr + 1"
  using assms
  by (simp add: initiate_failback_cases describe_send_notification promote_send_notification
        metrics_send_notification sleep_send_notification notification_send_notification
        failback_polled_counts)
     (simp add: failback_polled_def)

text \<open>A primary database that cannot be described.\<close>

theorem initiate_failback_unhealthy_witness:
  "fst (initiate_failback primary_down_env [])
     = Inl (PyException ''Primary database is not healthy, cannot failback'')
   \<and> calls_of (is_describe DR) (snd (initiate_failback primary_down_env [])) = 0
   \<and> calls_of is_promote (snd (initiate_failback primary_down_env [])) = 0"
proof -
  have a: "\<not> reports_healthy (fst (check_primary_database primary_down_env []))"
    by (simp add: reports_healthy_def check_primary_database_def primary_down_env_def
          sample_env_def error_dict_def getitem_def Let_def)
  note t = initiate_failback_unhealthy [OF a]
  have 1: "fst (initiate_failback primary_down_env [])
     = Inl (PyException ''Primary database is not healthy, cannot failback'')"
    using t [THEN conjunct1] .
  have 2: "calls_of (is_describe DR) (snd (initiate_failback primary_down_env [])) = 0"
    using t [THEN conjunct2, THEN conjunct2, THEN conjunct1] by (simp add: calls_of_Nil)
  have 3: "calls_of is_promote (snd (initiate_failback primary_down_env [])) = 0"
    using t [THEN conjunct2, THEN conjunct2, THEN conjunct2, THEN conjunct1]
    by (simp add: calls_of_Nil)
  show ?thesis using 1 2 3 by blast
qed

lemma failback_frame:
  "\<exists>new. send_notification env m s (failback_polled env tr) = tr @ new
     \<and> list_all (\<lambda>c. is_publish c \<or> is_print c
                       \<or> c = DescribeDBInstances Primary (DB_IDENTIFIER env)) new
     \<and> calls_of (is_describe Primary) new = 1
     \<and> calls_of is_publish new = 2"
proof -
  obtain n1 where n1: "send_notification env ''Starting failback procedure'' ''INFO'' tr = tr @ n1"
    "list_all (\<lambda>c. is_publish c \<or> is_print c) n1" "calls_of is_publish n1 = 1"
    using send_notification_extends by blast
  obtain n2 where n2: "send_notification env m s (failback_polled env tr) = failback_polled env tr @ n2"
    "list_all (\<lambda>c. is_publish c \<or> is_print c) n2" "calls_of is_publish n2 = 1"
    using send_notification_extends by blast
  have np: "calls_of (is_describe Primary) xs = 0" if "list_all (\<lambda>c. is_publish c \<or> is_print c) xs" for xs
    using that by (induction xs) (auto simp add: calls_of_def elim: is_publish.elims is_print.elims)
  have w: "list_all (\<lambda>c. is_publish c \<or> is_print c \<or> c = DescribeDBInstances Primary (DB_IDENTIFIER env)) xs"
    if "list_all (\<lambda>c. is_publish c \<or> is_print c) xs" for xs
    using that by (induction xs) auto
  let ?new = "n1 @ [DescribeDBInstances Primary (DB_IDENTIFIER env)] @ n2"
  have "send_notification env m s (failback_polled env tr) = tr @ ?new"
    by (simp add: n2(1)) (simp add: failback_polled_def n1(1))
  moreover have "list_all (\<lambda>c. is_publish c \<or> is_print c
                       \<or> c = DescribeDBInstances Primary (DB_IDENTIFIER env)) ?new"
    using w [OF n1(2)] w [OF n2(2)] by simp
  moreover have "calls_of (is_describe Primary) ?new = 1"
    using np [OF n1(2)] np [OF n2(2)] by (simp add: calls_of_append) (simp add: calls_of_def)
  moreover have "calls_of is_publish ?new = 2"
    using n1(3) n2(3) by (simp add: calls_of_append) (simp add: calls_of_def)
  ultimately show ?thesis by blast
qed

text \<open>
  C10. When the primary-database check reports healthy, \<^verbatim>\<open>initiate_failback\<close> returns
  status 200 with \<^verbatim>\<open>steps_completed\<close> equal to primary_health_verified, dns_reverted.
  On every path the entries it adds to the trace are publish calls (with the print of a
  failed publish) and the describe call on the primary: two publishes and one describe.
\<close>

theorem initiate_failback_frame:
  "(reports_healthy (fst (check_primary_database env tr)) \<longrightarrow>
      fst (initiate_failback env tr)
        = Inr \<lparr>statusCode = 200,
               body = json_dumps env None
                 (JObj [(''message'', JStr ''Failback completed successfully''),
                        (''steps_completed'',
                           JList [JStr ''primary_health_verified'', JStr ''dns_reverted'']),
                        (''timestamp'', JStr (timestamp env))])\<rparr>)
   \<and> (\<exists>new. snd (initiate_failback env tr) = tr @ new
         \<and> list_all (\<lambda>c. is_publish c \<or> is_print c
                           \<or> c = DescribeDBInstances Primary (DB_IDENTIFIER env)) new
         \<and> calls_of (is_describe Primary) new = 1
         \<and> calls_of is_publish new = 2)"
proof (intro conjI impI)
  assume "reports_healthy (fst (check_primary_database env tr))"
  then show "fst (initiate_failback env tr)
        = Inr \<lparr>statusCode = 200,
               body = json_dumps env None
                 (JObj [(''message'', JStr ''Failback completed successfully''),
                        (''steps_completed'',
                           JList [JStr ''primary_health_verified'', JStr ''dns_reverted'']),
                        (''timestamp'', JStr (timestamp env))])\<rparr>"
    by (simp add: initiate_failback_cases failback_steps_def)
next
  show "\<exists>new. snd (initiate_failback env tr) = tr @ new
         \<and> list_all (\<lambda>c. is_publish c \<or> is_print c
                           \<or> c = DescribeDBInstances Primary (DB_IDENTIFIER env)) new
         \<and> calls_of (is_describe Primary) new = 1
         \<and> calls_of is_publish new = 2"
    using failback_frame by (simp add: initiate_failback_cases)
qed

text \<open>The sample primary is available.\<close>

theorem initiate_failback_frame_witness:
  "fst (initiate_failback sample_env [])
     = Inr \<lparr>statusCode = 200, body = ''messagesteps_completedtimestamp''\<rparr>"
proof -
  have a: "reports_healthy (fst (check_primary_database sample_env []))"
    by (simp add: reports_healthy_def check_primary_database_def sample_env_def
          sample_instance_def getitem_def Let_def calls_of_def)
  have j: "json_dumps sample_env None (JObj [(''message'', x), (''steps_completed'', y), (''timestamp'', z)])
             = ''messagesteps_completedtimestamp''" for x y z
    by (simp add: sample_env_def)
  show ?thesis
    using initiate_failback_frame [of sample_env "[]", THEN conjunct1] a by (simp add: j)
qed

subsection \<open>Disaster-recovery test\<close>

lemma returns_eq: "returns f tr = (Inr (fst (f tr)), snd (f tr))"
  by (simp add: returns_def split_beta)

lemma run_probes_returns:
  assumes "connectivity tr = (Inr c, tr1)" "simulation tr1 = (Inr s, tr2)"
    "alerts tr2 = (Inr a, tr3)" "backup tr3 = (Inr b, tr4)"
  shows "run_probes connectivity simulation alerts backup tr
           = (Inr [(''dr_replica_connectivity'', c), (''failover_simulation'', s),
                   (''monitoring_alerts'', a), (''backup_integrity'', b)], tr4)"
  using assms by (simp add: run_probes_def)









lemma own_results_success:
  "list_all probe_success (map snd (own_results env tr))
     = reports_healthy (fst (check_dr_replica env tr))"
  by (simp add: own_results_def probe_success_def dict_get_def)










subsection \<open>The handler\<close>

lemma handler_unknown:
  assumes "event ''action'' = Some a"
    and "a \<notin> {PyStr ''health_check'', PyStr ''initiate_failover'', PyStr ''failback'', PyStr ''test_dr''}"
  shows "handler env event tr
           = (\<lparr>statusCode = 500,
               body = json_dumps env None
                 (JObj [(''error'', JStr (''DR Automation failed: Unknown action: '' @ str_pyval a)),
                        (''timestamp'', JStr (timestamp env))])\<rparr>,
              send_notification env (''DR Automation failed: Unknown action: '' @ str_pyval a)
                ''ERROR'' tr)"
  using assms by (simp add: handler_def Let_def handler_except_raise)

text \<open>
  C1, as the code has it. The action tags the handler knows are \<^verbatim>\<open>health_check\<close>,
  \<^verbatim>\<open>initiate_failover\<close>, \<^verbatim>\<open>failback\<close> and \<^verbatim>\<open>test_dr\<close>: for each, the handler runs the
  procedure of that tag once, inside its \<^verbatim>\<open>except\<close> clause. For every other action value
  (the string \<^verbatim>\<open>failover\<close> among them) no procedure runs and no database or metrics call is
  made: the handler sends one ERROR notification and returns status 500 with the error
  \<^verbatim>\<open>DR Automation failed: Unknown action: \<close> followed by the action.
\<close>

theorem handler_dispatch:
  assumes "event ''action'' = Some a"
  shows "(a = PyStr ''health_check'' \<longrightarrow>
            handler env event tr = handler_except env (perform_health_check env tr))
       \<and> (a = PyStr ''initiate_failover'' \<longrightarrow>
            handler env event tr = handler_except env (initiate_failover env tr))
       \<and> (a = PyStr ''failback'' \<longrightarrow>
            handler env event tr = handler_except env (initiate_failback env tr))
       \<and> (a = PyStr ''test_dr'' \<longrightarrow>
            handler env event tr = handler_except env (test_disaster_recovery env tr))
       \<and> (a \<notin> {PyStr ''health_check'', PyStr ''initiate_failover'', PyStr ''failback'',
                 PyStr ''test_dr''} \<longrightarrow>
            handler env event tr
              = (\<lparr>statusCode = 500,
                  body = json_dumps env None
                    (JObj [(''error'',
                              JStr (''DR Automation failed: Unknown action: '' @ str_pyval a)),
                           (''timestamp'', JStr (timestamp env))])\<rparr>,
                 send_notification env
                   (''DR Automation failed: Unknown action: '' @ str_pyval a) ''ERROR'' tr)
            \<and> calls_of (is_describe Primary) (snd (handler env event tr))
                = calls_of (is_describe Primary) tr
            \<and> calls_of (is_describe DR) (snd (handler env event tr))
                = calls_of (is_describe DR) tr
            \<and> calls_of is_promote (snd (handler env event tr)) = calls_of is_promote tr
            \<and> calls_of is_metrics (snd (handler env event tr)) = calls_of is_metrics tr
            \<and> calls_of is_sleep (snd (handler env event tr)) = calls_of is_sleep tr
            \<and> calls_of is_publish (snd (handler env event tr)) = calls_of is_publish tr + 1
            \<and> calls_of (is_notification env ''ERROR'') (snd (handler env event tr))
                = calls_of (is_notification env ''ERROR'') tr + 1)"
proof (intro conjI impI)
  assume u: "a \<notin> {PyStr ''health_check'', PyStr ''initiate_failover'', PyStr ''failback'',
                 PyStr ''test_dr''}"
  note h = handler_unknown [of event a env tr, OF assms u]
  show "handler env event tr
              = (\<lparr>statusCode = 500,
                  body = json_dumps env None
                    (JObj [(''error'',
                              JStr (''DR Automation failed: Unknown action: '' @ str_pyval a)),
                           (''timestamp'', JStr (timestamp env))])\<rparr>,
                 send_notification env
                   (''DR Automation failed: Unknown action: '' @ str_pyval a) ''ERROR'' tr)"
    by (rule h)
  show "calls_of (is_describe Primary) (snd (handler env event tr))
                = calls_of (is_describe Primary) tr"
    by (simp add: h describe_send_notification)
  show "calls_of (is_describe DR) (snd (handler env event tr)) = calls_of (is_describe DR) tr"
    by (simp add: h describe_send_notification)
  show "calls_of is_promote (snd (handler env event tr)) = calls_of is_promote tr"
    by (simp add: h promote_send_notification)
  show "calls_of is_metrics (snd (handler env event tr)) = calls_of is_metrics tr"
    by (simp add: h metrics_send_notification)
  show "calls_of is_sleep (snd (handler env event tr)) = calls_of is_sleep tr"
    by (simp add: h sleep_send_notification)
  show "calls_of is_publish (snd (handler env event tr)) = calls_of is_publish tr + 1"
    by (simp add: h publish_send_notification)
  show "calls_of (is_notification env ''ERROR'') (snd (handler env event tr))
                = calls_of (is_notification env ''ERROR'') tr + 1"
    by (simp add: h notification_send_notification)
qed (use assms in \<open>simp_all add: handler_def Let_def\<close>)

text \<open>The events with the actions \<^verbatim>\<open>initiate_failover\<close> and \<^verbatim>\<open>failover\<close>.\<close>

theorem handler_dispatch_witness:
  "handler sample_env failover_event [] = handler_except sample_env (initiate_failover sample_env [])
   \<and> statusCode (fst (handler sample_env unknown_event [])) = 500
   \<and> calls_of is_promote (snd (handler sample_env unknown_event [])) = 0
   \<and> calls_of is_publish (snd (handler sample_env unknown_event [])) = 1"
proof -
  have a: "failover_event ''action'' = Some (PyStr ''initiate_failover'')"
    by (simp add: failover_event_def)
  have b: "unknown_event ''action'' = Some (PyStr ''failover'')"
    by (simp add: unknown_event_def)
  have u: "PyStr ''failover'' \<notin> {PyStr ''health_check'', PyStr ''initiate_failover'',
             PyStr ''failback'', PyStr ''test_dr''}"
    by simp
  note t1 = handler_dispatch [of failover_event "PyStr ''initiate_failover''" sample_env "[]", OF a]
  note t2 = handler_dispatch [of unknown_event "PyStr ''failover''" sample_env "[]", OF b]
  have 1: "handler sample_env failover_event []
             = handler_except sample_env (initiate_failover sample_env [])"
    using t1 [THEN conjunct2, THEN conjunct1] by simp
  note t3 = t2 [THEN conjunct2, THEN conjunct2, THEN conjunct2, THEN conjunct2, rule_format, OF u]
  have 2: "statusCode (fst (handler sample_env unknown_event [])) = 500"
    by (simp add: t3 [THEN conjunct1])
  have 3: "calls_of is_promote (snd (handler sample_env unknown_event [])) = 0"
    using t3 [THEN conjunct2, THEN conjunct2, THEN conjunct2, THEN conjunct1]
    by (simp add: calls_of_Nil)
  have 4: "calls_of is_publish (snd (handler sample_env unknown_event [])) = 1"
    using t3 [THEN conjunct2, THEN conjunct2, THEN conjunct2, THEN conjunct2, THEN conjunct2,
              THEN conjunct2, THEN conjunct1]
    by (simp add: calls_of_Nil)
  show ?thesis using 1 2 3 4 by blast
qed

text \<open>
  C1 as stated fails: the action \<^verbatim>\<open>failover\<close> is answered with status 500 and a publish
  call on the notification client, where running the failover procedure in the same
  environment returns status 200.
\<close>

theorem failover_tag_not_recognized:
  "unknown_event ''action'' = Some (PyStr ''failover'')
   \<and> statusCode (fst (handler sample_env unknown_event [])) = 500
   \<and> calls_of is_publish (snd (handler sample_env unknown_event [])) = 1
   \<and> statusCode (fst (handler_except sample_env (initiate_failover sample_env []))) = 200"
proof -
  have b: "unknown_event ''action'' = Some (PyStr ''failover'')"
    by (simp add: unknown_event_def)
  have u: "PyStr ''failover'' \<notin> {PyStr ''health_check'', PyStr ''initiate_failover'',
             PyStr ''failback'', PyStr ''test_dr''}"
    by simp
  note h = handler_unknown [of unknown_event "PyStr ''failover''" sample_env "[]", OF b u]
  have 2: "statusCode (fst (handler sample_env unknown_event [])) = 500"
    by (simp add: h)
  have 3: "calls_of is_publish (snd (handler sample_env unknown_event [])) = 1"
    by (simp add: h publish_send_notification calls_of_Nil)
  have p: "promote_read_replica sample_env (calls_of is_promote []) = Inr ()"
    by (simp add: sample_env_def)
  have k: "(1::nat) < 60" by simp
  have q: "\<forall>j<1. \<exists>s. poll_status sample_env DR (calls_of (is_describe DR) [] + j) = Some s
                      \<and> s \<noteq> ''available''"
    by (simp add: poll_status_def sample_env_def sample_instance_def calls_of_def)
  have c: "poll_status sample_env DR (calls_of (is_describe DR) [] + 1) = Some ''available''"
    by (simp add: poll_status_def sample_env_def sample_instance_def calls_of_def)
  have f: "\<exists>r. fst (initiate_failover sample_env []) = Inr r \<and> statusCode r = 200"
    using initiate_failover_completes [OF p k q c, THEN conjunct1] by simp
  have 4: "statusCode (fst (handler_except sample_env (initiate_failover sample_env []))) = 200"
    using f by (cases "initiate_failover sample_env []") (auto simp add: handler_except_def)
  show ?thesis using b 2 3 4 by blast
qed

text \<open>
  C9. For an event without an \<^verbatim>\<open>action\<close> key the handler runs the health check and
  returns its result and its trace; the status is 200, not an error.
\<close>

theorem handler_default_action:
  assumes "event ''action'' = None"
  shows "(Inr (fst (handler env event tr)), snd (handler env event tr)) = perform_health_check env tr
       \<and> statusCode (fst (handler env event tr)) = 200"
proof -
  obtain r where r: "fst (perform_health_check env tr) = Inr r" "statusCode r = 200"
    using perform_health_check_result [of env tr] by simp
  have h: "handler env event tr = handler_except env (perform_health_check env tr)"
    using assms by (simp add: handler_def Let_def)
  have p: "perform_health_check env tr = (Inr r, snd (perform_health_check env tr))"
    using r(1) by (simp add: prod_eq_iff)
  have "handler env event tr = (r, snd (perform_health_check env tr))"
    by (subst h, subst p) (simp add: handler_except_return)
  then show ?thesis using p r(2) by simp
qed

text \<open>The empty event.\<close>

theorem handler_default_action_witness:
  "(Inr (fst (handler sample_env Map.empty [])), snd (handler sample_env Map.empty []))
     = perform_health_check sample_env []
   \<and> statusCode (fst (handler sample_env Map.empty [])) = 200"
proof -
  have a: "(Map.empty :: event) ''action'' = None" by simp
  show ?thesis using handler_default_action [of Map.empty, OF a] .
qed

end
